theory Spec2Isabelle
  imports Complex_Main "HOL-Library.Monad_Syntax" "HOL-Library.AList"
begin

section \<open>Tensors and the TensorFlow operations used by the loss\<close>

text \<open>
  The tensors of \<^verbatim>\<open>module/loss_module.py\<close> have rank 3 (batch, anchors, components)
  or rank 2 (batch, anchors). They are nested lists here. Their entries are reals where
  the arithmetic of the reals is meant, and values of the type \<open>f32\<close> below where the
  infinities, the NaN and the overflow of 32-bit floats matter. An operation that
  TensorFlow rejects (shapes that do not broadcast, a reshape that does not fit, an index
  out of range) returns \<open>None\<close>.
\<close>

type_synonym 'a tensor2 = "'a list list"
type_synonym 'a tensor3 = "'a list list list"

definition shape3 :: "nat \<Rightarrow> nat \<Rightarrow> nat \<Rightarrow> 'a tensor3 \<Rightarrow> bool" where
  "shape3 b a k t =
     (length t = b \<and> list_all (\<lambda>r. length r = a \<and> list_all (\<lambda>v. length v = k) r) t)"

definition shape2 :: "nat \<Rightarrow> nat \<Rightarrow> 'a tensor2 \<Rightarrow> bool" where
  "shape2 b a t = (length t = b \<and> list_all (\<lambda>r. length r = a) t)"

definition tab3 :: "nat \<Rightarrow> nat \<Rightarrow> nat \<Rightarrow> (nat \<Rightarrow> nat \<Rightarrow> nat \<Rightarrow> 'a) \<Rightarrow> 'a tensor3" where
  "tab3 b a k f = map (\<lambda>i. map (\<lambda>j. map (\<lambda>l. f i j l) [0..<k]) [0..<a]) [0..<b]"

definition map3 :: "('a \<Rightarrow> 'b) \<Rightarrow> 'a tensor3 \<Rightarrow> 'b tensor3" where
  "map3 f t = map (map (map f)) t"

text \<open>
  Broadcasting along one axis: equal lengths combine pointwise, an axis of length 1 is
  repeated, anything else is an error.
\<close>

definition bcast :: "('a \<Rightarrow> 'b \<Rightarrow> 'c option) \<Rightarrow> 'a list \<Rightarrow> 'b list \<Rightarrow> 'c list option" where
  "bcast f xs ys =
     (if length xs = length ys then those (map2 f xs ys)
      else if length xs = 1 then those (map (f (hd xs)) ys)
      else if length ys = 1 then those (map (\<lambda>x. f x (hd ys)) xs)
      else None)"

definition tf_binop :: "('a \<Rightarrow> 'b \<Rightarrow> 'c) \<Rightarrow> 'a tensor3 \<Rightarrow> 'b tensor3 \<Rightarrow> 'c tensor3 option" where
  "tf_binop f x y = bcast (bcast (bcast (\<lambda>u v. Some (f u v)))) x y"

definition tf_subtract :: "real tensor3 \<Rightarrow> real tensor3 \<Rightarrow> real tensor3 option" where
  "tf_subtract x y = tf_binop (\<lambda>u v. u - v) x y"

definition tf_multiply :: "real tensor3 \<Rightarrow> real tensor3 \<Rightarrow> real tensor3 option" where
  "tf_multiply x y = tf_binop (\<lambda>u v. u * v) x y"

definition tf_add :: "real tensor3 \<Rightarrow> real tensor3 \<Rightarrow> real tensor3 option" where
  "tf_add x y = tf_binop (\<lambda>u v. u + v) x y"

definition tf_abs :: "real tensor3 \<Rightarrow> real tensor3" where
  "tf_abs x = map3 abs x"

text \<open>The operations with one scalar operand, which broadcasts to every entry.\<close>

definition tf_less_scalar :: "real tensor3 \<Rightarrow> real \<Rightarrow> bool tensor3" where
  "tf_less_scalar x c = map3 (\<lambda>u. u < c) x"

definition tf_cast_float :: "bool tensor3 \<Rightarrow> real tensor3" where
  "tf_cast_float m = map3 (\<lambda>p. if p then 1 else 0) m"

definition tf_multiply_scalar :: "real tensor3 \<Rightarrow> real \<Rightarrow> real tensor3" where
  "tf_multiply_scalar x c = map3 (\<lambda>u. u * c) x"

definition tf_subtract_scalar :: "real tensor3 \<Rightarrow> real \<Rightarrow> real tensor3" where
  "tf_subtract_scalar x c = map3 (\<lambda>u. u - c) x"

definition tf_scalar_subtract :: "real \<Rightarrow> real tensor3 \<Rightarrow> real tensor3" where
  "tf_scalar_subtract c x = map3 (\<lambda>u. c - u) x"

definition tf_reduce_sum :: "real tensor3 \<Rightarrow> real" where
  "tf_reduce_sum x = sum_list (concat (concat x))"

text \<open>
  \<^verbatim>\<open>tf.reshape(t, (b, -1, k))\<close>: the entries in row-major order, regrouped; the middle
  dimension is inferred. It fails when the entries do not fill whole rows. An empty
  batch (\<open>b = 0\<close>) of no entries is reshaped to the empty tensor.
\<close>

definition tf_reshape3 :: "nat \<Rightarrow> nat \<Rightarrow> 'a tensor3 \<Rightarrow> 'a tensor3 option" where
  "tf_reshape3 b k t =
     (let xs = concat (concat t) in
      if b = 0 then (if xs = [] then Some [] else None)
      else if k = 0 \<or> length xs mod (b * k) \<noteq> 0 then None
      else Some (tab3 b (length xs div (b * k)) k
                   (\<lambda>i j l. xs ! ((i * (length xs div (b * k)) + j) * k + l))))"

section \<open>The regression loss of \<^verbatim>\<open>Loss_op.loss\<close>\<close>

text \<open>
  Lines 28 to 33 of \<^verbatim>\<open>loss_module.py\<close>, operation by operation, on real entries: the
  values that the code computes where no 32-bit operation overflows, rounding apart.
  The same lines on \<open>f32\<close> entries follow below (\<open>smooth_l1_f32\<close>).
\<close>

definition smooth_l1 ::
  "real tensor3 \<Rightarrow> real tensor3 \<Rightarrow> real tensor3 \<Rightarrow> real tensor3 \<Rightarrow> real tensor3 option" where
  "smooth_l1 pre_box target_box target_inside_weight target_outside_weight = do {
     diff \<leftarrow> tf_subtract pre_box target_box;
     inside \<leftarrow> tf_multiply target_inside_weight diff;
     let mask = tf_cast_float (tf_less_scalar (tf_abs inside) 1);
     sq \<leftarrow> tf_multiply inside inside;
     let option1 = tf_multiply_scalar sq 0.5;
     let option2 = tf_subtract_scalar (tf_abs inside) 0.5;
     quad \<leftarrow> tf_multiply option1 mask;
     lin \<leftarrow> tf_multiply option2 (tf_scalar_subtract 1 mask);
     both \<leftarrow> tf_add quad lin;
     tf_multiply both target_outside_weight
   }"

text \<open>
  Lines 27 to 34: the predicted boxes reshaped to (batch, -1, 4), the weighted
  smoothed-L1 tensor, its sum, and the scale factor 10.
\<close>

definition reg_loss ::
  "nat \<Rightarrow> real tensor3 \<Rightarrow> real tensor3 \<Rightarrow> real tensor3 \<Rightarrow> real tensor3 \<Rightarrow> real option" where
  "reg_loss batch_size pre_box target_box target_inside_weight target_outside_weight = do {
     pre_box \<leftarrow> tf_reshape3 batch_size 4 pre_box;
     s \<leftarrow> smooth_l1 pre_box target_box target_inside_weight target_outside_weight;
     Some (tf_reduce_sum s * 10)
   }"

text \<open>The entrywise functions that the tensor operations above apply.\<close>

definition mask_entry :: "real \<Rightarrow> real" where
  "mask_entry d = (if \<bar>d\<bar> < 1 then 1 else 0)"

definition option1_entry :: "real \<Rightarrow> real" where
  "option1_entry d = d * d * 0.5"

definition option2_entry :: "real \<Rightarrow> real" where
  "option2_entry d = \<bar>d\<bar> - 0.5"

definition smooth_l1_entry :: "real \<Rightarrow> real" where
  "smooth_l1_entry d =
     option1_entry d * mask_entry d + option2_entry d * (1 - mask_entry d)"

text \<open>
  The regression loss as the specification words it: for every anchor and each of its 4
  dimensions, \<open>d\<close> is the inside weight times the residual; the transform is
  \<open>0.5 d\<^sup>2\<close> below 1 and \<open>|d| - 0.5\<close> otherwise; the outside weight multiplies it; the
  sum over all anchors and dimensions is scaled by 10.
\<close>

definition huber :: "real \<Rightarrow> real" where
  "huber d = (if \<bar>d\<bar> < 1 then 0.5 * d\<^sup>2 else \<bar>d\<bar> - 0.5)"

definition reg_loss_spec ::
  "nat \<Rightarrow> nat \<Rightarrow> real tensor3 \<Rightarrow> real tensor3 \<Rightarrow> real tensor3 \<Rightarrow> real tensor3 \<Rightarrow> real" where
  "reg_loss_spec b a pre_box target_box inside_weight outside_weight =
     10 * (\<Sum>i\<leftarrow>[0..<b]. \<Sum>j\<leftarrow>[0..<a]. \<Sum>l\<leftarrow>[0..<4].
             huber (inside_weight ! i ! j ! l * (pre_box ! i ! j ! l - target_box ! i ! j ! l))
               * outside_weight ! i ! j ! l)"

section \<open>The regression loss with the special values of 32-bit floats\<close>

text \<open>
  The tensors of the loss are \<^verbatim>\<open>tf.float32\<close>. A value is a finite number, an infinity
  or NaN. The rounding of a finite result to the nearest float is not modelled; its
  overflow is: a result of magnitude \<open>2\<^sup>1\<^sup>2\<^sup>8 - 2\<^sup>1\<^sup>0\<^sup>3\<close> or more is an infinity. The
  operations follow IEEE 754: NaN propagates, infinity minus infinity and infinity times
  zero are NaN, and no comparison with NaN holds.
\<close>

datatype f32 = Finite real | PosInf | NegInf | NotANumber

definition overflow_f32 :: real where
  "overflow_f32 = 2 ^ 128 - 2 ^ 103"

definition round_f32 :: "real \<Rightarrow> f32" where
  "round_f32 x =
     (if overflow_f32 \<le> x then PosInf else if x \<le> - overflow_f32 then NegInf else Finite x)"

fun neg_f32 :: "f32 \<Rightarrow> f32" where
  "neg_f32 (Finite x) = Finite (- x)"
| "neg_f32 PosInf = NegInf"
| "neg_f32 NegInf = PosInf"
| "neg_f32 NotANumber = NotANumber"

fun add_f32 :: "f32 \<Rightarrow> f32 \<Rightarrow> f32" where
  "add_f32 NotANumber y = NotANumber"
| "add_f32 x NotANumber = NotANumber"
| "add_f32 (Finite x) (Finite y) = round_f32 (x + y)"
| "add_f32 PosInf NegInf = NotANumber"
| "add_f32 NegInf PosInf = NotANumber"
| "add_f32 PosInf y = PosInf"
| "add_f32 NegInf y = NegInf"
| "add_f32 (Finite x) y = y"

definition sub_f32 :: "f32 \<Rightarrow> f32 \<Rightarrow> f32" where
  "sub_f32 x y = add_f32 x (neg_f32 y)"

fun mul_f32 :: "f32 \<Rightarrow> f32 \<Rightarrow> f32" where
  "mul_f32 NotANumber y = NotANumber"
| "mul_f32 x NotANumber = NotANumber"
| "mul_f32 (Finite x) (Finite y) = round_f32 (x * y)"
| "mul_f32 (Finite x) PosInf = (if x = 0 then NotANumber else if 0 < x then PosInf else NegInf)"
| "mul_f32 (Finite x) NegInf = (if x = 0 then NotANumber else if 0 < x then NegInf else PosInf)"
| "mul_f32 PosInf (Finite y) = (if y = 0 then NotANumber else if 0 < y then PosInf else NegInf)"
| "mul_f32 NegInf (Finite y) = (if y = 0 then NotANumber else if 0 < y then NegInf else PosInf)"
| "mul_f32 PosInf PosInf = PosInf"
| "mul_f32 NegInf NegInf = PosInf"
| "mul_f32 PosInf NegInf = NegInf"
| "mul_f32 NegInf PosInf = NegInf"

fun abs_f32 :: "f32 \<Rightarrow> f32" where
  "abs_f32 (Finite x) = Finite \<bar>x\<bar>"
| "abs_f32 PosInf = PosInf"
| "abs_f32 NegInf = PosInf"
| "abs_f32 NotANumber = NotANumber"

fun less_f32 :: "f32 \<Rightarrow> f32 \<Rightarrow> bool" where
  "less_f32 NotANumber y = False"
| "less_f32 x NotANumber = False"
| "less_f32 (Finite x) (Finite y) = (x < y)"
| "less_f32 NegInf NegInf = False"
| "less_f32 NegInf y = True"
| "less_f32 x PosInf = (x \<noteq> PosInf)"
| "less_f32 x NegInf = False"
| "less_f32 PosInf y = False"

text \<open>
  Lines 28 to 33 again, on \<open>f32\<close> entries. Both branches are computed for every entry and
  blended by the 0/1 mask, and the inside weight acts by multiplication.
\<close>

definition smooth_l1_f32 ::
  "f32 tensor3 \<Rightarrow> f32 tensor3 \<Rightarrow> f32 tensor3 \<Rightarrow> f32 tensor3 \<Rightarrow> f32 tensor3 option" where
  "smooth_l1_f32 pre_box target_box target_inside_weight target_outside_weight = do {
     diff \<leftarrow> tf_binop sub_f32 pre_box target_box;
     inside \<leftarrow> tf_binop mul_f32 target_inside_weight diff;
     let mask = map3 (\<lambda>p. if p then Finite 1 else Finite 0)
                 (map3 (\<lambda>u. less_f32 u (Finite 1)) (map3 abs_f32 inside));
     sq \<leftarrow> tf_binop mul_f32 inside inside;
     let option1 = map3 (\<lambda>u. mul_f32 u (Finite 0.5)) sq;
     let option2 = map3 (\<lambda>u. sub_f32 u (Finite 0.5)) (map3 abs_f32 inside);
     quad \<leftarrow> tf_binop mul_f32 option1 mask;
     lin \<leftarrow> tf_binop mul_f32 option2 (map3 (\<lambda>u. sub_f32 (Finite 1) u) mask);
     both \<leftarrow> tf_binop add_f32 quad lin;
     tf_binop mul_f32 both target_outside_weight
   }"

text \<open>
  \<^verbatim>\<open>tf.reduce_sum\<close> on \<open>f32\<close> entries, adding from the left, and lines 27 to 34 on them.
\<close>

definition tf_reduce_sum_f32 :: "f32 tensor3 \<Rightarrow> f32" where
  "tf_reduce_sum_f32 x = foldl add_f32 (Finite 0) (concat (concat x))"

definition reg_loss_f32 ::
  "nat \<Rightarrow> f32 tensor3 \<Rightarrow> f32 tensor3 \<Rightarrow> f32 tensor3 \<Rightarrow> f32 tensor3 \<Rightarrow> f32 option" where
  "reg_loss_f32 batch_size pre_box target_box target_inside_weight target_outside_weight = do {
     pre_box \<leftarrow> tf_reshape3 batch_size 4 pre_box;
     s \<leftarrow> smooth_l1_f32 pre_box target_box target_inside_weight target_outside_weight;
     Some (mul_f32 (tf_reduce_sum_f32 s) (Finite 10))
   }"

text \<open>
  The entrywise function that the operations of \<open>smooth_l1_f32\<close> apply, and the test that
  a real number is below the overflow threshold.
\<close>

definition smooth_l1_entry_f32 :: "f32 \<Rightarrow> f32 \<Rightarrow> f32 \<Rightarrow> f32 \<Rightarrow> f32" where
  "smooth_l1_entry_f32 p t iw ow =
     (let inside = mul_f32 iw (sub_f32 p t);
          mask = (if less_f32 (abs_f32 inside) (Finite 1) then Finite 1 else Finite 0);
          option1 = mul_f32 (mul_f32 inside inside) (Finite 0.5);
          option2 = sub_f32 (abs_f32 inside) (Finite 0.5)
      in mul_f32 (add_f32 (mul_f32 option1 mask) (mul_f32 option2 (sub_f32 (Finite 1) mask))) ow)"

definition in_f32_range :: "real \<Rightarrow> bool" where
  "in_f32_range x = (\<bar>x\<bar> < overflow_f32)"

section \<open>The classification loss of \<^verbatim>\<open>Loss_op.loss\<close>\<close>

text \<open>
  \<^verbatim>\<open>tf.reduce_mean\<close> of a tensor with no entries is 0/0, which TensorFlow returns as NaN;
  it is the one place of this file where a value that is not a real number can appear.
\<close>

datatype scalar = Value real | NaN

definition tf_reduce_mean :: "real list \<Rightarrow> scalar" where
  "tf_reduce_mean xs = (if xs = [] then NaN else Value (sum_list xs / real (length xs)))"

definition tf_not_equal_scalar :: "int tensor2 \<Rightarrow> int \<Rightarrow> bool tensor2" where
  "tf_not_equal_scalar x c = map (map (\<lambda>u. u \<noteq> c)) x"

text \<open>\<^verbatim>\<open>tf.where(m)\<close>: the indices of the true entries, in row-major order.\<close>

definition tf_where :: "bool tensor2 \<Rightarrow> (nat \<times> nat) list" where
  "tf_where m =
     concat (map (\<lambda>i. map (Pair i) (filter (\<lambda>j. m ! i ! j) [0..<length (m ! i)])) [0..<length m])"

text \<open>
  \<^verbatim>\<open>tf.gather_nd(t, idx)\<close> with index pairs: the slice at each pair; an index out of
  range is an error.
\<close>

definition tf_gather_nd :: "'a tensor2 \<Rightarrow> (nat \<times> nat) list \<Rightarrow> 'a list option" where
  "tf_gather_nd t idx =
     those (map (\<lambda>(i, j). if i < length t \<and> j < length (t ! i) then Some (t ! i ! j) else None) idx)"

text \<open>\<^verbatim>\<open>tf.reshape(t, (-1, k))\<close> of a rank-2 tensor.\<close>

definition tf_reshape2 :: "nat \<Rightarrow> 'a tensor2 \<Rightarrow> 'a tensor2 option" where
  "tf_reshape2 k t =
     (let xs = concat t in
      if k = 0 \<or> length xs mod k \<noteq> 0 then None
      else Some (map (\<lambda>i. map (\<lambda>l. xs ! (i * k + l)) [0..<k]) [0..<length xs div k]))"

text \<open>\<^verbatim>\<open>tf.reshape(t, [-1])\<close> of a rank-1 tensor changes nothing.\<close>

definition tf_reshape1 :: "'a list \<Rightarrow> 'a list" where
  "tf_reshape1 xs = xs"

text \<open>\<^verbatim>\<open>tf.cast(x, tf.int32)\<close> of an integer: the value modulo \<open>2\<^sup>3\<^sup>2\<close>, read as signed.\<close>

definition tf_cast_int32 :: "int \<Rightarrow> int" where
  "tf_cast_int32 x = (x + 2 ^ 31) mod 2 ^ 32 - 2 ^ 31"

text \<open>
  \<^verbatim>\<open>tf.nn.sparse_softmax_cross_entropy_with_logits\<close>: for each row of logits and its class
  index, minus the logarithm of the softmax probability of that class. A class index
  outside the row is an error, as is a differing number of rows and labels.
\<close>

definition softmax :: "real list \<Rightarrow> real list" where
  "softmax z = map (\<lambda>u. exp u / (\<Sum>v\<leftarrow>z. exp v)) z"

definition xent_row :: "real list \<Rightarrow> int \<Rightarrow> real option" where
  "xent_row z l =
     (if 0 \<le> l \<and> nat l < length z then Some (- ln (softmax z ! nat l)) else None)"

definition sparse_softmax_cross_entropy_with_logits :: "real tensor2 \<Rightarrow> int list \<Rightarrow> real list option" where
  "sparse_softmax_cross_entropy_with_logits logits labels =
     (if length logits = length labels then those (map2 xent_row logits labels) else None)"

text \<open>Lines 19 to 25 of \<^verbatim>\<open>loss_module.py\<close>.\<close>

definition cls_loss :: "nat \<Rightarrow> real tensor3 \<Rightarrow> int tensor2 \<Rightarrow> scalar option" where
  "cls_loss batch_size pre_score label = do {
     pre_score \<leftarrow> tf_reshape3 batch_size 2 pre_score;
     let pre_score_keep = tf_where (tf_not_equal_scalar label (- 1));
     pre_score_gather \<leftarrow> tf_gather_nd pre_score pre_score_keep;
     pre_score_valid \<leftarrow> tf_reshape2 2 pre_score_gather;
     label_valid_gather \<leftarrow> tf_gather_nd label pre_score_keep;
     let label_valid = map tf_cast_int32 (tf_reshape1 label_valid_gather);
     losses \<leftarrow> sparse_softmax_cross_entropy_with_logits pre_score_valid label_valid;
     Some (tf_reduce_mean losses)
   }"

text \<open>
  The classification loss as the specification words it: the mean, over exactly the
  anchors whose label is not ignore (-1), of the cross-entropy between the two-class
  score and the binary label. An ignored anchor adds nothing to the sum and nothing to
  the count.
\<close>

definition cross_entropy2 :: "real list \<Rightarrow> int \<Rightarrow> real" where
  "cross_entropy2 z y =
     - ((1 - real_of_int y) * ln (exp (z ! 0) / (exp (z ! 0) + exp (z ! 1)))
        + real_of_int y * ln (exp (z ! 1) / (exp (z ! 0) + exp (z ! 1))))"

definition valid_count :: "nat \<Rightarrow> nat \<Rightarrow> int tensor2 \<Rightarrow> nat" where
  "valid_count b a label = (\<Sum>i\<leftarrow>[0..<b]. \<Sum>j\<leftarrow>[0..<a]. if label ! i ! j \<noteq> - 1 then 1 else 0)"

definition cls_loss_spec :: "nat \<Rightarrow> nat \<Rightarrow> real tensor3 \<Rightarrow> int tensor2 \<Rightarrow> real" where
  "cls_loss_spec b a pre_score label =
     (\<Sum>i\<leftarrow>[0..<b]. \<Sum>j\<leftarrow>[0..<a].
        if label ! i ! j \<noteq> - 1 then cross_entropy2 (pre_score ! i ! j) (label ! i ! j) else 0)
     / real (valid_count b a label)"

section \<open>The loss object\<close>

text \<open>
  Boxes are corner coordinates. \<^verbatim>\<open>Loss_op\<close> holds the anchor set and the matcher object.
  The classes \<^verbatim>\<open>Anchor\<close> (module \<^verbatim>\<open>gen_ancor\<close>) and \<^verbatim>\<open>Anchor_tf\<close> (module \<^verbatim>\<open>anchor_tf\<close>)
  are not among the sources, so the anchor generator and the method
  \<^verbatim>\<open>pos_neg_anchor2\<close> are parameters: the generator is a function of the grid size, the
  method a function of the ground truth and the anchors that may fail, and that may
  consult the framework's random generator; what it reads there is its first
  argument, of a type \<open>'r\<close> left open.
\<close>

record box =
  x_min :: real
  y_min :: real
  x_max :: real
  y_max :: real

type_synonym 'x matcher_out =
  "int tensor2 \<times> 'x tensor3 \<times> 'x tensor3 \<times> 'x tensor3 \<times> 'x tensor3"

type_synonym ('r, 'x) matcher = "'r \<Rightarrow> box list \<Rightarrow> box list \<Rightarrow> 'x matcher_out option"

record ('r, 'x) Loss_op =
  anchors :: "box list"
  anchor_tf :: "('r, 'x) matcher"

definition Loss_op_init ::
  "(nat \<Rightarrow> nat \<Rightarrow> box list) \<Rightarrow> ('r, 'x) matcher \<Rightarrow> ('r, 'x) Loss_op" where
  "Loss_op_init Anchor Anchor_tf = \<lparr>anchors = Anchor 49 49, anchor_tf = Anchor_tf\<rparr>"

type_synonym loss_out = "scalar \<times> real \<times> int tensor2 \<times> real tensor3"

definition loss ::
  "('r, real) Loss_op \<Rightarrow> 'r \<Rightarrow> box list \<Rightarrow> real tensor3 \<Rightarrow> real tensor3 \<Rightarrow> loss_out option" where
  "loss self rnd gt pre_score pre_box = do {
     let batch_size = length gt;
     (label, target_box, target_inside_weight, target_outside_weight, all_box)
       \<leftarrow> anchor_tf self rnd gt (anchors self);
     cls \<leftarrow> cls_loss batch_size pre_score label;
     reg \<leftarrow> reg_loss batch_size pre_box target_box target_inside_weight target_outside_weight;
     Some (cls, reg, label, target_box)
   }"

text \<open>
  \<^verbatim>\<open>Loss_op.loss\<close> once more, with the box tensors and the regression loss as \<open>f32\<close>
  values: the same lines, the regression part being \<open>reg_loss_f32\<close>.
\<close>

definition loss_f32 ::
  "('r, f32) Loss_op \<Rightarrow> 'r \<Rightarrow> box list \<Rightarrow> real tensor3 \<Rightarrow> f32 tensor3
     \<Rightarrow> (scalar \<times> f32 \<times> int tensor2 \<times> f32 tensor3) option" where
  "loss_f32 self rnd gt pre_score pre_box = do {
     let batch_size = length gt;
     (label, target_box, target_inside_weight, target_outside_weight, all_box)
       \<leftarrow> anchor_tf self rnd gt (anchors self);
     cls \<leftarrow> cls_loss batch_size pre_score label;
     reg \<leftarrow> reg_loss_f32 batch_size pre_box target_box target_inside_weight target_outside_weight;
     Some (cls, reg, label, target_box)
   }"

text \<open>
  A call as a step on the object: \<^verbatim>\<open>loss\<close> assigns to no attribute of \<^verbatim>\<open>self\<close>, so the
  object after the call is the object before it, whether the call returns or raises.
\<close>

record 'r loss_args =
  arg_rnd :: 'r
  arg_gt :: "box list"
  arg_pre_score :: "real tensor3"
  arg_pre_box :: "real tensor3"

definition loss_call ::
  "('r, real) Loss_op \<Rightarrow> 'r loss_args \<Rightarrow> loss_out option \<times> ('r, real) Loss_op" where
  "loss_call self args =
     (loss self (arg_rnd args) (arg_gt args) (arg_pre_score args) (arg_pre_box args), self)"

fun loss_calls ::
  "('r, real) Loss_op \<Rightarrow> 'r loss_args list \<Rightarrow> loss_out option list \<times> ('r, real) Loss_op" where
  "loss_calls self [] = ([], self)"
| "loss_calls self (args # rest) =
     (let (out, self') = loss_call self args;
          (outs, self'') = loss_calls self' rest
      in (out # outs, self''))"

section \<open>The layer decorator of \<^verbatim>\<open>net/network.py\<close>\<close>

text \<open>
  A Python value that a layer operation consumes or produces is either a string or
  another object (a TensorFlow tensor, a list of tensors), of an open type \<open>'v\<close>.
  \<^verbatim>\<open>feed\<close> tells the two apart with \<^verbatim>\<open>isinstance(fed_layer, str)\<close>.
\<close>

datatype py_error = RuntimeError string | KeyError string | AssertionError | OpError string

datatype 'v py_value = Str string | Obj 'v

datatype 'v layer_input = Single "'v py_value" | Several "'v py_value list"

text \<open>
  The attributes of a \<^verbatim>\<open>Network\<close> that the decorator and \<^verbatim>\<open>feed\<close> read or assign. The
  dictionary \<^verbatim>\<open>layers\<close> is an association list, \<^verbatim>\<open>self.layers[name] = v\<close> being
  \<^const>\<open>AList.update\<close>.
\<close>

record 'v Network =
  inputs :: "(string \<times> 'v py_value) list"
  terminals :: "'v py_value list"
  layers :: "(string \<times> 'v py_value) list"
  trainable :: bool

text \<open>
  \<^verbatim>\<open>Network.feed\<close>, lines 75 to 88: the terminals are emptied, then each argument is
  appended, a string being looked up in the layer table first. A call raises by returning
  the error together with the object as it stands at that moment.
\<close>

fun feed_loop :: "'v Network \<Rightarrow> 'v py_value list \<Rightarrow> (py_error + unit) \<times> 'v Network" where
  "feed_loop self [] = (Inr (), self)"
| "feed_loop self (Obj v # rest) =
     feed_loop (self\<lparr>terminals := terminals self @ [Obj v]\<rparr>) rest"
| "feed_loop self (Str n # rest) =
     (case map_of (layers self) n of
        None \<Rightarrow> (Inl (KeyError (''Unknown layer name fed: '' @ n)), self)
      | Some fed_layer \<Rightarrow> feed_loop (self\<lparr>terminals := terminals self @ [fed_layer]\<rparr>) rest)"

definition feed :: "'v Network \<Rightarrow> 'v py_value list \<Rightarrow> (py_error + unit) \<times> 'v Network" where
  "feed self args =
     (if length args = 0 then (Inl AssertionError, self)
      else feed_loop (self\<lparr>terminals := []\<rparr>) args)"

text \<open>\<^verbatim>\<open>Network.get_unique_name\<close>, lines 94 to 99, with \<^verbatim>\<open>'%s_%d'\<close> written out.\<close>

definition startswith :: "string \<Rightarrow> string \<Rightarrow> bool" where
  "startswith t p = (take (length p) t = p)"

fun str_of_nat :: "nat \<Rightarrow> string" where
  "str_of_nat n =
     (if n < 10 then [''0123456789'' ! n]
      else str_of_nat (n div 10) @ [''0123456789'' ! (n mod 10)])"

definition get_unique_name :: "'v Network \<Rightarrow> string \<Rightarrow> string" where
  "get_unique_name self p =
     (let ident = length (filter (\<lambda>(t, _). startswith t p) (layers self)) + 1
      in p @ ''_'' @ str_of_nat ident)"

text \<open>
  \<^verbatim>\<open>layer_decorated\<close>, lines 10 to 27. The decorated operation \<open>op\<close>, of name \<open>op_name\<close>,
  gets the object, the layer input and the name, and returns its output or raises;
  the other arguments of the call are part of \<open>op\<close>. \<open>kw_name\<close> is the entry
  \<^verbatim>\<open>name\<close> of the keyword arguments, if the caller gave one. The output is stored under
  the name, then handed to \<^verbatim>\<open>feed\<close> as its one argument.
\<close>

definition layer_name :: "string \<Rightarrow> string option \<Rightarrow> 'v Network \<Rightarrow> string" where
  "layer_name op_name kw_name self =
     (case kw_name of Some n \<Rightarrow> n | None \<Rightarrow> get_unique_name self op_name)"

definition layer_input_of :: "'v Network \<Rightarrow> 'v layer_input" where
  "layer_input_of self =
     (if length (terminals self) = 1 then Single (terminals self ! 0)
      else Several (terminals self))"

definition layer_decorated ::
  "string \<Rightarrow> ('v Network \<Rightarrow> 'v layer_input \<Rightarrow> string \<Rightarrow> py_error + 'v py_value)
     \<Rightarrow> string option \<Rightarrow> 'v Network \<Rightarrow> (py_error + unit) \<times> 'v Network" where
  "layer_decorated op_name op kw_name self =
     (let name = layer_name op_name kw_name self in
      if length (terminals self) = 0
      then (Inl (RuntimeError (''No input variables found for layer '' @ name @ ''.'')), self)
      else
        (case op self (layer_input_of self) name of
           Inl e \<Rightarrow> (Inl e, self)
         | Inr layer_output \<Rightarrow>
             feed (self\<lparr>layers := AList.update name layer_output (layers self)\<rparr>)
               [layer_output]))"

text \<open>
  The layer \<^verbatim>\<open>reshape\<close>, lines 426 to 436, before decoration. \<open>tf_reshape\<close> stands for
  \<^verbatim>\<open>tf.reshape\<close> of the input to \<^verbatim>\<open>(shape[1], shape[2], 256, n)\<close> under the given name;
  any other rate than 2 and 4 raises.
\<close>

definition reshape ::
  "('v layer_input \<Rightarrow> nat \<Rightarrow> string \<Rightarrow> 'v py_value) \<Rightarrow> int
     \<Rightarrow> 'v Network \<Rightarrow> 'v layer_input \<Rightarrow> string \<Rightarrow> py_error + 'v py_value" where
  "reshape tf_reshape rate self input name =
     (if rate = 2 then Inr (tf_reshape input 10 name)
      else if rate = 4 then Inr (tf_reshape input 20 name)
      else Inl (KeyError ''shape is error''))"

section \<open>The anchor matcher, from the specification\<close>

text \<open>
  Modelled from the spec: the method \<^verbatim>\<open>pos_neg_anchor2\<close> of the class \<^verbatim>\<open>Anchor_tf\<close> (module
  \<^verbatim>\<open>anchor_tf\<close>), which \<^verbatim>\<open>Loss_op.loss\<close> calls at line 17, is not among the sources. The
  definitions of this section follow section 4.2 of the specification step by step.
  This record is its configuration: the IoU thresholds, the cap on foreground anchors
  and the total budget of selected anchors per batch element.
\<close>

record config =
  pos_threshold :: real
  neg_threshold :: real
  fg_cap :: nat
  batch_budget :: nat

text \<open>
  Modelled from the spec: the width of a box in corner coordinates, which the absent
  matcher needs for the overlap of step 1 and the targets of step 6.
\<close>

definition width :: "box \<Rightarrow> real" where
  "width b = x_max b - x_min b"

text \<open>
  Modelled from the spec: the height of a box in corner coordinates, for the same steps
  of the absent matcher.
\<close>

definition height :: "box \<Rightarrow> real" where
  "height b = y_max b - y_min b"

text \<open>
  Modelled from the spec: the area of a box, for the IoU of the absent matcher's step 1.
\<close>

definition area :: "box \<Rightarrow> real" where
  "area b = width b * height b"

text \<open>
  Modelled from the spec: the intersection area of the absent matcher's step 1, zero
  when the boxes do not overlap.
\<close>

definition intersection :: "box \<Rightarrow> box \<Rightarrow> real" where
  "intersection a g =
     max 0 (min (x_max a) (x_max g) - max (x_min a) (x_min g))
     * max 0 (min (y_max a) (y_max g) - max (y_min a) (y_min g))"

text \<open>
  Modelled from the spec: step 1 of the absent matcher, IoU = intersection-area /
  (area_a + area_b - intersection-area). It is undefined (\<open>None\<close>) for a ground-truth box
  of zero area and where the denominator is zero.
\<close>

definition iou :: "box \<Rightarrow> box \<Rightarrow> real option" where
  "iou a g =
     (let i = intersection a g; u = area a + area g - i
      in if area g = 0 \<or> u = 0 then None else Some (i / u))"

text \<open>
  Modelled from the spec: step 1 of the absent matcher for all anchors and one ground
  truth; a single undefined IoU makes the whole undefined.
\<close>

definition overlaps :: "box list \<Rightarrow> box \<Rightarrow> real list option" where
  "overlaps ancs g = those (map (\<lambda>a. iou a g) ancs)"

text \<open>
  Modelled from the spec: steps 2 to 4 of the absent matcher, on the IoUs of all anchors
  with one ground truth. Foreground (1) above the positive threshold or at the maximum
  over all anchors; otherwise background (0) below the negative threshold; otherwise
  ignore (-1).
\<close>

definition assign_labels :: "config \<Rightarrow> real list \<Rightarrow> int list" where
  "assign_labels cfg ious =
     map (\<lambda>v. if pos_threshold cfg < v \<or> v = Max (set ious) then 1
              else if v < neg_threshold cfg then 0
              else - 1) ious"

text \<open>
  Modelled from the spec: step 5 of the absent matcher. The random draw is a rank for
  every anchor index; the anchors are taken in the order of their ranks. The first
  \<open>fg_cap\<close> foreground anchors in that order are kept (all of them if there are fewer),
  then background anchors fill the remainder of the budget, and every anchor that is not
  selected is relabelled ignore.
\<close>

definition subsample :: "config \<Rightarrow> (nat \<Rightarrow> nat) \<Rightarrow> int list \<Rightarrow> int list" where
  "subsample cfg rnd labels =
     (let order = sort_key rnd [0..<length labels];
          keep_fg = take (fg_cap cfg) (filter (\<lambda>i. labels ! i = 1) order);
          keep_bg = take (batch_budget cfg - length keep_fg) (filter (\<lambda>i. labels ! i = 0) order)
      in map (\<lambda>i. if i \<in> set keep_fg then 1 else if i \<in> set keep_bg then 0 else - 1)
           [0..<length labels])"

text \<open>
  Modelled from the spec: step 6 of the absent matcher, the regression target of an
  anchor for a ground truth: the centre offset normalised by the anchor size and the
  logarithm of the width and height ratios.
\<close>

definition encode_target :: "box \<Rightarrow> box \<Rightarrow> real list" where
  "encode_target a g =
     [((x_min g + x_max g) / 2 - (x_min a + x_max a) / 2) / width a,
      ((y_min g + y_max g) / 2 - (y_min a + y_max a) / 2) / height a,
      ln (width g / width a),
      ln (height g / height a)]"

text \<open>
  Modelled from the spec: the absent matcher on one batch element, steps 1 to 7. The
  target is that of step 6 for a foreground anchor and zero otherwise; the inside weight
  is 1 for foreground and 0 otherwise; the outside weight is 1 / num_foreground, with the
  count clipped to 1 from below, for all anchors; the last component is the anchors as
  corner coordinates. An undefined IoU is fatal.
\<close>

definition match_one ::
  "config \<Rightarrow> (nat \<Rightarrow> nat) \<Rightarrow> box list \<Rightarrow> box
     \<Rightarrow> (int list \<times> real tensor2 \<times> real tensor2 \<times> real tensor2 \<times> real tensor2) option" where
  "match_one cfg rnd ancs g = do {
     ious \<leftarrow> overlaps ancs g;
     let labels = subsample cfg rnd (assign_labels cfg ious);
     let num_fg = length (filter (\<lambda>l. l = 1) labels);
     let w = 1 / real (max 1 num_fg);
     Some (labels,
           map2 (\<lambda>a l. if l = 1 then encode_target a g else [0, 0, 0, 0]) ancs labels,
           map (\<lambda>l. if l = 1 then [1, 1, 1, 1] else [0, 0, 0, 0]) labels,
           map (\<lambda>l. [w, w, w, w]) labels,
           map (\<lambda>a. [x_min a, y_min a, x_max a, y_max a]) ancs)
   }"

text \<open>
  Modelled from the spec: the absent method \<^verbatim>\<open>pos_neg_anchor2\<close>, the matcher of section
  4.2 on a batch: one ground-truth box per batch element, each matched against all
  anchors, the five results stacked along the batch axis.
\<close>

definition pos_neg_anchor2 :: "config \<Rightarrow> (nat \<Rightarrow> nat, real) matcher" where
  "pos_neg_anchor2 cfg rnd gt ancs = do {
     rows \<leftarrow> those (map (match_one cfg rnd ancs) gt);
     Some (map (\<lambda>(l, t, iw, ow, ab). l) rows,
           map (\<lambda>(l, t, iw, ow, ab). t) rows,
           map (\<lambda>(l, t, iw, ow, ab). iw) rows,
           map (\<lambda>(l, t, iw, ow, ab). ow) rows,
           map (\<lambda>(l, t, iw, ow, ab). ab) rows)
   }"

text \<open>
  Modelled from the spec: the absent matcher's precondition on geometry. A box is proper
  when its width and height are positive; a ground-truth box that is not is degenerate.
\<close>

definition proper :: "box \<Rightarrow> bool" where
  "proper b = (x_min b < x_max b \<and> y_min b < y_max b)"

section \<open>Shapes and tabulated tensors\<close>

lemma those_map_Some: "those (map (\<lambda>x. Some (g x)) xs) = Some (map g xs)"
  by (induction xs) simp_all

lemma map2_same: "map2 f (map g xs) (map h xs) = map (\<lambda>x. f (g x) (h x)) xs"
  by (induction xs) simp_all

lemma shape3_tab3: "shape3 b a k (tab3 b a k f)"
  by (simp add: shape3_def tab3_def list_all_iff)

lemma shape3_as_tab3:
  assumes "shape3 b a k t"
  shows "t = tab3 b a k (\<lambda>i j l. t ! i ! j ! l)"
proof -
  have len: "length t = b"
    using assms by (simp add: shape3_def)
  have rows: "length (t ! i) = a" if "i < b" for i
    using assms that by (simp add: shape3_def list_all_length)
  have vecs: "length (t ! i ! j) = k" if "i < b" "j < a" for i j
    using assms that by (simp add: shape3_def list_all_length)
  show ?thesis
    unfolding tab3_def
    by (rule nth_equalityI) (auto simp: len rows vecs intro!: nth_equalityI)
qed

lemma map3_tab3: "map3 g (tab3 b a k f) = tab3 b a k (\<lambda>i j l. g (f i j l))"
  by (simp add: map3_def tab3_def)

lemma bcast_same_length:
  "length xs = length ys \<Longrightarrow> bcast f xs ys = those (map2 f xs ys)"
  by (simp add: bcast_def)

lemma tf_binop_tab3:
  "tf_binop g (tab3 b a k f) (tab3 b a k f') = Some (tab3 b a k (\<lambda>i j l. g (f i j l) (f' i j l)))"
  by (simp add: tf_binop_def tab3_def bcast_same_length map2_same those_map_Some)

lemma sum_list_concat_map:
  fixes g :: "'a \<Rightarrow> real list"
  shows "sum_list (concat (map g xs)) = (\<Sum>x\<leftarrow>xs. sum_list (g x))"
  by (induction xs) simp_all

lemma tf_reduce_sum_tab3:
  "tf_reduce_sum (tab3 b a k f) = (\<Sum>i\<leftarrow>[0..<b]. \<Sum>j\<leftarrow>[0..<a]. \<Sum>l\<leftarrow>[0..<k]. f i j l)"
proof -
  have "concat (tab3 b a k f) = concat (map (\<lambda>i. map (\<lambda>j. map (\<lambda>l. f i j l) [0..<k]) [0..<a]) [0..<b])"
    by (simp add: tab3_def)
  have inner: "sum_list (concat (map (\<lambda>j. map (\<lambda>l. f i j l) [0..<k]) [0..<a]))
      = (\<Sum>j\<leftarrow>[0..<a]. \<Sum>l\<leftarrow>[0..<k]. f i j l)" for i
    by (simp add: sum_list_concat_map)
  have "sum_list (concat (concat (map g xs))) = (\<Sum>x\<leftarrow>xs. sum_list (concat (g x)))"
    for g :: "nat \<Rightarrow> real list list" and xs
    by (induction xs) simp_all
  then show ?thesis
    by (simp add: tf_reduce_sum_def tab3_def inner)
qed

section \<open>The regression loss on tensors of the expected shape\<close>

lemma smooth_l1_entry_huber: "smooth_l1_entry d = huber d"
  by (simp add: smooth_l1_entry_def huber_def mask_entry_def option1_entry_def option2_entry_def
      power2_eq_square)

lemma smooth_l1_tab3:
  "smooth_l1 (tab3 b a k p) (tab3 b a k t) (tab3 b a k iw) (tab3 b a k ow)
     = Some (tab3 b a k (\<lambda>i j l. smooth_l1_entry (iw i j l * (p i j l - t i j l)) * ow i j l))"
  by (simp add: smooth_l1_def tf_subtract_def tf_multiply_def tf_add_def tf_abs_def
      tf_less_scalar_def tf_cast_float_def tf_multiply_scalar_def tf_subtract_scalar_def
      tf_scalar_subtract_def tf_binop_tab3 map3_tab3 smooth_l1_entry_def mask_entry_def
      option1_entry_def option2_entry_def)

lemma length_concat_uniform:
  "\<forall>x\<in>set xss. length x = n \<Longrightarrow> length (concat xss) = length xss * n"
  by (induction xss) simp_all

lemma concat_nth_uniform:
  "\<forall>x\<in>set xss. length x = n \<Longrightarrow> i < length xss \<Longrightarrow> j < n
     \<Longrightarrow> concat xss ! (i * n + j) = xss ! i ! j"
proof (induction xss arbitrary: i)
  case Nil
  then show ?case by simp
next
  case (Cons x xss)
  show ?case
  proof (cases i)
    case 0
    with Cons.prems show ?thesis by (simp add: nth_append)
  next
    case (Suc i')
    with Cons.prems have "concat xss ! (i' * n + j) = xss ! i' ! j"
      by (intro Cons.IH) simp_all
    with Suc Cons.prems show ?thesis by (simp add: nth_append)
  qed
qed

lemma shape3_flat:
  assumes "shape3 b a k t"
  shows "length (concat (concat t)) = b * a * k"
    and "i < b \<Longrightarrow> j < a \<Longrightarrow> l < k \<Longrightarrow> concat (concat t) ! ((i * a + j) * k + l) = t ! i ! j ! l"
proof -
  have len: "length t = b" and rows: "\<forall>r\<in>set t. length r = a"
    and vecs: "\<forall>v\<in>set (concat t). length v = k"
    using assms by (auto simp: shape3_def list_all_iff)
  have lc: "length (concat t) = b * a"
    using length_concat_uniform [OF rows] len by simp
  show "length (concat (concat t)) = b * a * k"
    using length_concat_uniform [OF vecs] lc by simp
  assume i: "i < b" and j: "j < a" and l: "l < k"
  have "i * a + j < b * a"
  proof -
    have "i * a + j < i * a + a" using j by simp
    also have "\<dots> = (i + 1) * a" by simp
    also have "\<dots> \<le> b * a" using i by (intro mult_le_mono1) simp
    finally show ?thesis .
  qed
  then have "concat (concat t) ! ((i * a + j) * k + l) = concat t ! (i * a + j) ! l"
    using concat_nth_uniform [OF vecs] l lc by simp
  also have "concat t ! (i * a + j) = t ! i ! j"
    using concat_nth_uniform [OF rows] i j len by simp
  finally show "concat (concat t) ! ((i * a + j) * k + l) = t ! i ! j ! l" .
qed

lemma tab3_cong:
  "(\<And>i j l. i < b \<Longrightarrow> j < a \<Longrightarrow> l < k \<Longrightarrow> f i j l = g i j l) \<Longrightarrow> tab3 b a k f = tab3 b a k g"
  by (simp add: tab3_def)

lemma tf_reshape3_id:
  assumes "shape3 b a k t" "0 < b" "0 < k"
  shows "tf_reshape3 b k t = Some t"
proof -
  have len: "length (concat (concat t)) = b * a * k"
    using shape3_flat(1) [OF assms(1)] .
  have d: "b * a * k div (b * k) = a"
    using assms(2,3) by (simp add: mult.assoc mult.left_commute [of a])
  have m: "b * a * k mod (b * k) = 0"
    using assms(2,3) by (simp add: mult.assoc mult.left_commute [of a])
  have "tab3 b a k (\<lambda>i j l. concat (concat t) ! ((i * a + j) * k + l)) = tab3 b a k (\<lambda>i j l. t ! i ! j ! l)"
    by (rule tab3_cong) (rule shape3_flat(2) [OF assms(1)])
  also have "\<dots> = t"
    using shape3_as_tab3 [OF assms(1)] by simp
  finally show ?thesis
    using assms(2,3) by (simp add: tf_reshape3_def Let_def len d m)
qed

lemma smooth_l1_shaped:
  assumes "shape3 b a k pre_box" "shape3 b a k target_box" "shape3 b a k iw" "shape3 b a k ow"
  shows "smooth_l1 pre_box target_box iw ow
     = Some (tab3 b a k (\<lambda>i j l.
         smooth_l1_entry (iw ! i ! j ! l * (pre_box ! i ! j ! l - target_box ! i ! j ! l))
           * ow ! i ! j ! l))"
proof -
  have "smooth_l1 (tab3 b a k (\<lambda>i j l. pre_box ! i ! j ! l)) (tab3 b a k (\<lambda>i j l. target_box ! i ! j ! l))
          (tab3 b a k (\<lambda>i j l. iw ! i ! j ! l)) (tab3 b a k (\<lambda>i j l. ow ! i ! j ! l))
     = Some (tab3 b a k (\<lambda>i j l.
         smooth_l1_entry (iw ! i ! j ! l * (pre_box ! i ! j ! l - target_box ! i ! j ! l))
           * ow ! i ! j ! l))"
    by (rule smooth_l1_tab3)
  then show ?thesis
    using assms by (simp flip: shape3_as_tab3)
qed

lemma reg_loss_shaped:
  assumes "0 < b"
    and "shape3 b a 4 pre_box" "shape3 b a 4 target_box" "shape3 b a 4 iw" "shape3 b a 4 ow"
  shows "reg_loss b pre_box target_box iw ow = Some (reg_loss_spec b a pre_box target_box iw ow)"
  using assms
  by (simp add: reg_loss_def tf_reshape3_id smooth_l1_shaped tf_reduce_sum_tab3 reg_loss_spec_def
      smooth_l1_entry_huber)


lemma upt_small: "[0..<1] = [0]" "[0..<2] = [0, 1]" "[0..<3] = [0, 1, 2]" "[0..<4] = [0, 1, 2, 3]"
  by code_simp+


lemma loss_unfold:
  assumes "anchor_tf self rnd gt (anchors self) = Some (label, target_box, iw, ow, all_box)"
    and "cls_loss (length gt) pre_score label = Some c"
    and "reg_loss (length gt) pre_box target_box iw ow = Some r"
  shows "loss self rnd gt pre_score pre_box = Some (c, r, label, target_box)"
  using assms by (simp add: loss_def)




text \<open>
  Claim C4. At an anchor where the predicted box equals the regression target, the four
  entries of the weighted smoothed-L1 tensor, which the regression loss sums, are 0,
  whatever the inside and outside weights.
\<close>

theorem zero_residual_contributes_zero:
  assumes "shape3 b a 4 pre_box" "shape3 b a 4 target_box"
    and "shape3 b a 4 iw" "shape3 b a 4 ow"
    and "i < b" "j < a"
    and "pre_box ! i ! j = target_box ! i ! j"
  shows "\<exists>s. smooth_l1 pre_box target_box iw ow = Some s \<and> s ! i ! j = [0, 0, 0, 0]
           \<and> (0 < b \<longrightarrow> reg_loss b pre_box target_box iw ow = Some (tf_reduce_sum s * 10))"
proof -
  let ?s = "tab3 b a 4 (\<lambda>i j l.
         smooth_l1_entry (iw ! i ! j ! l * (pre_box ! i ! j ! l - target_box ! i ! j ! l))
           * ow ! i ! j ! l)"
  have "smooth_l1 pre_box target_box iw ow = Some ?s"
    using assms(1-4) by (rule smooth_l1_shaped)
  moreover have "?s ! i ! j = [0, 0, 0, 0]"
    using assms(5-7)
    by (simp add: tab3_def upt_small smooth_l1_entry_def option1_entry_def mask_entry_def)
  moreover have "reg_loss b pre_box target_box iw ow = Some (tf_reduce_sum ?s * 10)" if "0 < b"
    using that assms(1-4) by (simp add: reg_loss_def tf_reshape3_id smooth_l1_shaped)
  ultimately show ?thesis
    by blast
qed

theorem zero_residual_contributes_zero_witness:
  "\<exists>s. smooth_l1 [[[3, 4, 5, 6]]] [[[3, 4, 5, 6]]] [[[1, 1, 1, 1]]] [[[7, 7, 7, 7]]] = Some s
      \<and> s ! 0 ! 0 = [0, 0, 0, 0]
      \<and> reg_loss 1 [[[3, 4, 5, 6]]] [[[3, 4, 5, 6]]] [[[1, 1, 1, 1]]] [[[7, 7, 7, 7]]]
          = Some (tf_reduce_sum s * 10)"
  using zero_residual_contributes_zero [where b = 1 and a = 1 and i = 0 and j = 0
      and pre_box = "[[[3, 4, 5, 6]]]" and target_box = "[[[3, 4, 5, 6]]]"
      and iw = "[[[1, 1, 1, 1]]]" and ow = "[[[7, 7, 7, 7]]]"]
  by (simp add: shape3_def)

section \<open>Rescaling the outside weight\<close>

lemma reg_loss_tab3:
  assumes "0 < b"
  shows "reg_loss b (tab3 b a 4 p) (tab3 b a 4 t) (tab3 b a 4 iw) (tab3 b a 4 ow)
     = Some (10 * (\<Sum>i\<leftarrow>[0..<b]. \<Sum>j\<leftarrow>[0..<a]. \<Sum>l\<leftarrow>[0..<4].
                    smooth_l1_entry (iw i j l * (p i j l - t i j l)) * ow i j l))"
  using assms
  by (simp add: reg_loss_def tf_reshape3_id [OF shape3_tab3] smooth_l1_tab3 tf_reduce_sum_tab3)

lemma map_upt_double:
  "map (\<lambda>j. h (if j < a then j else j - a)) [0..<a + a] = map h [0..<a] @ map h [0..<a]"
proof -
  have "[0..<a + a] = [0..<a] @ [a..<a + a]"
    using upt_add_eq_append [of 0 a a] by simp
  moreover have "map (\<lambda>j. h (if j < a then j else j - a)) [0..<a] = map h [0..<a]"
    by simp
  moreover have "map (\<lambda>j. h (if j < a then j else j - a)) [a..<a + a] = map h [0..<a]"
  proof -
    have "[a..<a + a] = map (\<lambda>j. j + a) [0..<a]"
      using map_add_upt [of a a] by simp
    then show ?thesis
      by (simp add: comp_def)
  qed
  ultimately show ?thesis
    by simp
qed

lemma sum_list_upt_double:
  fixes h :: "nat \<Rightarrow> real"
  shows "(\<Sum>j\<leftarrow>[0..<a + a]. h (if j < a then j else j - a)) = 2 * (\<Sum>j\<leftarrow>[0..<a]. h j)"
  by (simp add: map_upt_double)

lemma sum_list_halves:
  fixes g :: "'a \<Rightarrow> real"
  shows "2 * (\<Sum>x\<leftarrow>xs. g x / 2) = (\<Sum>x\<leftarrow>xs. g x)"
  by (induction xs) (simp_all add: algebra_simps)

lemma dup_tab3:
  "map (\<lambda>r. r @ r) (tab3 b a k f) = tab3 b (a + a) k (\<lambda>i j l. f i (if j < a then j else j - a) l)"
  by (simp add: tab3_def map_upt_double [where h = "\<lambda>j. map (\<lambda>l. f i j l) [0..<k]" for i])


lemma reg_loss_tab3_scaled:
  assumes "0 < b"
  shows "reg_loss b (tab3 b a 4 p) (tab3 b a 4 t) (tab3 b a 4 iw) (map3 (\<lambda>w. c * w) (tab3 b a 4 ow))
     = Some (c * (10 * (\<Sum>i\<leftarrow>[0..<b]. \<Sum>j\<leftarrow>[0..<a]. \<Sum>l\<leftarrow>[0..<4].
                    smooth_l1_entry (iw i j l * (p i j l - t i j l)) * ow i j l)))"
proof -
  have "(\<Sum>i\<leftarrow>[0..<b]. \<Sum>j\<leftarrow>[0..<a]. \<Sum>l\<leftarrow>[0..<4].
            smooth_l1_entry (iw i j l * (p i j l - t i j l)) * (c * ow i j l))
      = c * (\<Sum>i\<leftarrow>[0..<b]. \<Sum>j\<leftarrow>[0..<a]. \<Sum>l\<leftarrow>[0..<4].
            smooth_l1_entry (iw i j l * (p i j l - t i j l)) * ow i j l)"
    by (simp add: mult.left_commute [of _ c] sum_list_const_mult)
  then show ?thesis
    using assms by (simp add: map3_tab3 reg_loss_tab3)
qed

lemma reg_loss_tab3_doubled:
  assumes "0 < b"
  shows "reg_loss b (map (\<lambda>r. r @ r) (tab3 b a 4 p)) (map (\<lambda>r. r @ r) (tab3 b a 4 t))
        (map (\<lambda>r. r @ r) (tab3 b a 4 iw)) (map3 (\<lambda>w. w / 2) (map (\<lambda>r. r @ r) (tab3 b a 4 ow)))
     = Some (10 * (\<Sum>i\<leftarrow>[0..<b]. \<Sum>j\<leftarrow>[0..<a]. \<Sum>l\<leftarrow>[0..<4].
                    smooth_l1_entry (iw i j l * (p i j l - t i j l)) * ow i j l))"
proof -
  let ?e = "\<lambda>i j l. smooth_l1_entry (iw i j l * (p i j l - t i j l)) * ow i j l"
  let ?k = "\<lambda>j. if j < a then j else j - a"
  have "(\<Sum>j\<leftarrow>[0..<a + a]. \<Sum>l\<leftarrow>[0..<4].
            smooth_l1_entry (iw i (?k j) l * (p i (?k j) l - t i (?k j) l)) * (ow i (?k j) l / 2))
      = (\<Sum>j\<leftarrow>[0..<a]. \<Sum>l\<leftarrow>[0..<4]. ?e i j l)" for i
  proof -
    have inner: "(\<Sum>l\<leftarrow>[0..<4]. smooth_l1_entry (iw i j l * (p i j l - t i j l)) * (ow i j l / 2))
        = (\<Sum>l\<leftarrow>[0..<4]. ?e i j l) / 2" for j
      by (simp add: upt_small)
    have "(\<Sum>j\<leftarrow>[0..<a + a]. \<Sum>l\<leftarrow>[0..<4].
            smooth_l1_entry (iw i (?k j) l * (p i (?k j) l - t i (?k j) l)) * (ow i (?k j) l / 2))
        = (\<Sum>j\<leftarrow>[0..<a + a]. (\<lambda>j. (\<Sum>l\<leftarrow>[0..<4]. ?e i j l) / 2) (?k j))"
      by (simp only: inner)
    also have "\<dots> = 2 * (\<Sum>j\<leftarrow>[0..<a]. (\<Sum>l\<leftarrow>[0..<4]. ?e i j l) / 2)"
      by (rule sum_list_upt_double)
    also have "\<dots> = (\<Sum>j\<leftarrow>[0..<a]. \<Sum>l\<leftarrow>[0..<4]. ?e i j l)"
      by (rule sum_list_halves)
    finally show ?thesis .
  qed
  then show ?thesis
    using assms by (simp add: dup_tab3 map3_tab3 reg_loss_tab3)
qed

text \<open>
  Claim C6. The regression loss is homogeneous of degree 1 in the outside weight, and
  doubling the anchors (every anchor's row of predictions, targets and weights twice)
  while halving the outside weight leaves it unchanged.
\<close>

theorem reg_loss_outside_weight_rescaling:
  assumes "0 < b"
    and "shape3 b a 4 pre_box" "shape3 b a 4 target_box" "shape3 b a 4 iw" "shape3 b a 4 ow"
  shows "\<exists>r. reg_loss b pre_box target_box iw ow = Some r
      \<and> reg_loss b pre_box target_box iw (map3 (\<lambda>w. c * w) ow) = Some (c * r)
      \<and> reg_loss b (map (\<lambda>r. r @ r) pre_box) (map (\<lambda>r. r @ r) target_box)
            (map (\<lambda>r. r @ r) iw) (map3 (\<lambda>w. w / 2) (map (\<lambda>r. r @ r) ow)) = Some r"
proof -
  let ?p = "\<lambda>i j l. pre_box ! i ! j ! l" and ?t = "\<lambda>i j l. target_box ! i ! j ! l"
  let ?iw = "\<lambda>i j l. iw ! i ! j ! l" and ?ow = "\<lambda>i j l. ow ! i ! j ! l"
  note eqs = shape3_as_tab3 [OF assms(2)] shape3_as_tab3 [OF assms(3)]
    shape3_as_tab3 [OF assms(4)] shape3_as_tab3 [OF assms(5)]
  show ?thesis
    using reg_loss_tab3 [OF assms(1), of a ?p ?t ?iw ?ow]
      reg_loss_tab3_scaled [OF assms(1), of a ?p ?t ?iw c ?ow]
      reg_loss_tab3_doubled [OF assms(1), of a ?p ?t ?iw ?ow]
    by (simp flip: eqs)
qed

theorem reg_loss_outside_weight_rescaling_witness:
  "\<exists>r. reg_loss 1 [[[2, 1 / 2, 0, 0]]] [[[0, 0, 0, 0]]] [[[1, 1, 1, 1]]] [[[1, 1, 1, 1]]] = Some r
      \<and> reg_loss 1 [[[2, 1 / 2, 0, 0]]] [[[0, 0, 0, 0]]] [[[1, 1, 1, 1]]] [[[3, 3, 3, 3]]] = Some (3 * r)
      \<and> reg_loss 1 [[[2, 1 / 2, 0, 0], [2, 1 / 2, 0, 0]]] [[[0, 0, 0, 0], [0, 0, 0, 0]]]
            [[[1, 1, 1, 1], [1, 1, 1, 1]]] [[[1 / 2, 1 / 2, 1 / 2, 1 / 2], [1 / 2, 1 / 2, 1 / 2, 1 / 2]]]
          = Some r"
  using reg_loss_outside_weight_rescaling [where b = 1 and a = 1 and c = 3
      and pre_box = "[[[2, 1 / 2, 0, 0]]]" and target_box = "[[[0, 0, 0, 0]]]"
      and iw = "[[[1, 1, 1, 1]]]" and ow = "[[[1, 1, 1, 1]]]"]
  by (simp add: shape3_def map3_def)

section \<open>The smoothed-L1 transform at the switch point\<close>

lemma option1_entry_deriv: "(option1_entry has_real_derivative x) (at x)"
  unfolding option1_entry_def [abs_def]
  by (auto intro!: derivative_eq_intros)

lemma option2_entry_deriv_pos: "0 < x \<Longrightarrow> (option2_entry has_real_derivative 1) (at x)"
proof -
  assume x: "0 < x"
  have "((\<lambda>y. y - 0.5) has_real_derivative 1) (at x)"
    by (auto intro!: derivative_eq_intros)
  then show ?thesis
  proof (rule has_field_derivative_transform_within_open [where S = "{0<..}"])
    show "open {0::real<..}" by simp
    show "x \<in> {0<..}" using x by simp
    show "\<And>y. y \<in> {0<..} \<Longrightarrow> y - 0.5 = option2_entry y"
      by (simp add: option2_entry_def)
  qed
qed

lemma smooth_l1_entry_even: "smooth_l1_entry (- x) = smooth_l1_entry x"
  by (simp add: smooth_l1_entry_def option1_entry_def option2_entry_def mask_entry_def)

lemma option2_entry_even: "option2_entry (- x) = option2_entry x"
  by (simp add: option2_entry_def)

lemma smooth_l1_entry_deriv_1: "(smooth_l1_entry has_real_derivative 1) (at 1)"
proof -
  have lim: "((\<lambda>e::real. 1 + min e 0 / 2) \<longlongrightarrow> 1 + min 0 0 / 2) (at 0)"
    by (intro tendsto_intros) simp_all
  have ev: "eventually (\<lambda>e::real. 1 + min e 0 / 2 = (smooth_l1_entry (1 + e) - smooth_l1_entry 1) / e) (at 0)"
    unfolding eventually_at
  proof (intro exI [of _ 1] conjI ballI impI)
    show "(0::real) < 1" by simp
    fix e :: real
    assume "e \<in> UNIV" and "e \<noteq> 0 \<and> dist e 0 < 1"
    then have e: "e \<noteq> 0" "\<bar>e\<bar> < 1"
      by simp_all
    show "1 + min e 0 / 2 = (smooth_l1_entry (1 + e) - smooth_l1_entry 1) / e"
    proof (cases "e < 0")
      case True
      with e have "\<bar>1 + e\<bar> < 1" by simp
      then have "smooth_l1_entry (1 + e) = (1 + e) * (1 + e) / 2"
        by (simp add: smooth_l1_entry_def option1_entry_def mask_entry_def)
      moreover have "smooth_l1_entry 1 = 1 / 2"
        by (simp add: smooth_l1_entry_def option2_entry_def mask_entry_def)
      ultimately show ?thesis
        using True e by (simp add: field_simps min_def)
    next
      case False
      with e have "\<not> \<bar>1 + e\<bar> < 1" "\<bar>1 + e\<bar> = 1 + e" by simp_all
      then have "smooth_l1_entry (1 + e) = 1 + e - 1 / 2"
        by (simp add: smooth_l1_entry_def option2_entry_def mask_entry_def)
      moreover have "smooth_l1_entry 1 = 1 / 2"
        by (simp add: smooth_l1_entry_def option2_entry_def mask_entry_def)
      ultimately show ?thesis
        using False e by (simp add: field_simps min_def)
    qed
  qed
  have "((\<lambda>e. (smooth_l1_entry (1 + e) - smooth_l1_entry 1) / e) \<longlongrightarrow> 1) (at 0)"
    using Lim_transform_eventually [OF lim ev] by simp
  then show ?thesis
    by (simp add: DERIV_def)
qed

lemma smooth_l1_entry_deriv_switch:
  assumes "\<bar>d\<bar> = 1"
  shows "(smooth_l1_entry has_real_derivative d) (at d)"
proof (cases "d = 1")
  case True
  then show ?thesis using smooth_l1_entry_deriv_1 by simp
next
  case False
  with assms have d: "d = - 1" by (simp add: abs_if split: if_splits)
  have "((\<lambda>x. smooth_l1_entry (- x)) has_real_derivative - 1) (at (- 1))"
    using DERIV_mirror [of smooth_l1_entry 1 "- 1"] smooth_l1_entry_deriv_1 by simp
  then have "(smooth_l1_entry has_real_derivative - 1) (at (- 1))"
    by (simp add: smooth_l1_entry_even)
  with d show ?thesis by simp
qed


lemma option2_entry_deriv_switch:
  assumes "\<bar>d\<bar> = 1"
  shows "(option2_entry has_real_derivative d) (at d)"
proof (cases "d = 1")
  case True
  then show ?thesis using option2_entry_deriv_pos [of 1] by simp
next
  case False
  with assms have d: "d = - 1" by (simp add: abs_if split: if_splits)
  have "((\<lambda>x. option2_entry (- x)) has_real_derivative - 1) (at (- 1))"
    using DERIV_mirror [of option2_entry 1 "- 1"] option2_entry_deriv_pos [of 1] by simp
  then have "(option2_entry has_real_derivative - 1) (at (- 1))"
    by (simp add: option2_entry_even)
  with d show ?thesis by simp
qed

lemma branches_along_magnitude:
  assumes "\<bar>d\<bar> = 1"
  shows "(\<lambda>r. option1_entry (d * r)) = option1_entry"
    and "(\<lambda>r. option2_entry (d * r)) = option2_entry"
proof -
  from assms have "d = 1 \<or> d = - 1"
    by (simp add: abs_if split: if_splits)
  then show "(\<lambda>r. option1_entry (d * r)) = option1_entry"
    and "(\<lambda>r. option2_entry (d * r)) = option2_entry"
    by (auto simp: option1_entry_def option2_entry_def fun_eq_iff)
qed

text \<open>
  Claim C3. At the switch point \<open>|d| = 1\<close> the quadratic branch and the linear branch of
  the smoothed-L1 transform both have the value 0.5, and their slopes agree: the
  derivative of each in \<open>d\<close> is \<open>d\<close> itself (1 at 1, -1 at -1), that is slope 1 along the
  magnitude \<open>|d|\<close>. The transform that the loss computes from them is therefore
  continuous and differentiable there, with the same value and slope.
\<close>

theorem smooth_l1_branches_meet_at_switch:
  assumes "\<bar>d\<bar> = 1"
  shows "option1_entry d = 0.5 \<and> option2_entry d = 0.5
      \<and> ((\<lambda>r. option1_entry (d * r)) has_real_derivative 1) (at 1)
      \<and> ((\<lambda>r. option2_entry (d * r)) has_real_derivative 1) (at 1)
      \<and> (option1_entry has_real_derivative d) (at d)
      \<and> (option2_entry has_real_derivative d) (at d)
      \<and> smooth_l1_entry d = 0.5 \<and> isCont smooth_l1_entry d
      \<and> (smooth_l1_entry has_real_derivative d) (at d)"
proof -
  from assms have d: "d = 1 \<or> d = - 1"
    by (simp add: abs_if split: if_splits)
  have vals: "option1_entry d = 0.5" "option2_entry d = 0.5" "smooth_l1_entry d = 0.5"
    using d by (auto simp: option1_entry_def option2_entry_def smooth_l1_entry_def mask_entry_def)
  have along: "((\<lambda>r. option1_entry (d * r)) has_real_derivative 1) (at 1)"
    "((\<lambda>r. option2_entry (d * r)) has_real_derivative 1) (at 1)"
    using option1_entry_deriv [of 1] option2_entry_deriv_pos [of 1]
    by (simp_all add: branches_along_magnitude [OF assms])
  have whole: "(smooth_l1_entry has_real_derivative d) (at d)"
    using assms by (rule smooth_l1_entry_deriv_switch)
  then have "isCont smooth_l1_entry d"
    by (rule DERIV_isCont)
  with vals along whole option1_entry_deriv [of d] option2_entry_deriv_switch [OF assms]
  show ?thesis
    by simp
qed

theorem smooth_l1_branches_meet_at_switch_witness:
  "option1_entry (- 1) = 0.5 \<and> option2_entry (- 1) = 0.5
      \<and> ((\<lambda>r. option1_entry (- 1 * r)) has_real_derivative 1) (at 1)
      \<and> ((\<lambda>r. option2_entry (- 1 * r)) has_real_derivative 1) (at 1)
      \<and> (option1_entry has_real_derivative - 1) (at (- 1))
      \<and> (option2_entry has_real_derivative - 1) (at (- 1))
      \<and> smooth_l1_entry (- 1) = 0.5 \<and> isCont smooth_l1_entry (- 1)
      \<and> (smooth_l1_entry has_real_derivative - 1) (at (- 1))"
  using smooth_l1_branches_meet_at_switch [of "- 1"] by simp

section \<open>The classification loss on tensors of the expected shape\<close>

lemma those_map_eq_Some:
  "(\<And>x. x \<in> set xs \<Longrightarrow> f x = Some (g x)) \<Longrightarrow> those (map f xs) = Some (map g xs)"
  by (induction xs) simp_all

lemma tf_where_shaped:
  assumes "shape2 b a label"
  shows "tf_where (tf_not_equal_scalar label c)
     = concat (map (\<lambda>i. map (Pair i) (filter (\<lambda>j. label ! i ! j \<noteq> c) [0..<a])) [0..<b])"
proof -
  let ?m = "tf_not_equal_scalar label c"
  have len: "length label = b" and rows: "\<And>i. i < b \<Longrightarrow> length (label ! i) = a"
    using assms by (simp_all add: shape2_def list_all_length)
  have mlen: "length ?m = b"
    by (simp add: tf_not_equal_scalar_def len)
  have mrow: "?m ! i = map (\<lambda>u. u \<noteq> c) (label ! i)" if "i < b" for i
    using that by (simp add: tf_not_equal_scalar_def len)
  have row: "map (Pair i) (filter (\<lambda>j. ?m ! i ! j) [0..<length (?m ! i)])
      = map (Pair i) (filter (\<lambda>j. label ! i ! j \<noteq> c) [0..<a])" if "i < b" for i
  proof -
    have "filter (\<lambda>j. map (\<lambda>u. u \<noteq> c) (label ! i) ! j) [0..<a]
        = filter (\<lambda>j. label ! i ! j \<noteq> c) [0..<a]"
      by (rule filter_cong) (simp_all add: rows [OF that])
    then show ?thesis
      by (simp add: mrow [OF that] rows [OF that])
  qed
  have "map (\<lambda>i. map (Pair i) (filter (\<lambda>j. ?m ! i ! j) [0..<length (?m ! i)])) [0..<b]
      = map (\<lambda>i. map (Pair i) (filter (\<lambda>j. label ! i ! j \<noteq> c) [0..<a])) [0..<b]"
    by (rule map_cong [OF refl]) (simp add: row)
  then show ?thesis
    by (simp only: tf_where_def mlen)
qed

lemma tf_gather_nd_in_range:
  assumes "\<And>i j. (i, j) \<in> set idx \<Longrightarrow> i < length t \<and> j < length (t ! i)"
  shows "tf_gather_nd t idx = Some (map (\<lambda>(i, j). t ! i ! j) idx)"
  unfolding tf_gather_nd_def
  by (rule those_map_eq_Some) (use assms in auto)

lemma tf_reshape2_id:
  assumes "\<forall>v\<in>set t. length v = k" "0 < k"
  shows "tf_reshape2 k t = Some t"
proof -
  have len: "length (concat t) = length t * k"
    using assms(1) by (rule length_concat_uniform)
  have "map (\<lambda>i. map (\<lambda>l. concat t ! (i * k + l)) [0..<k]) [0..<length t] = t"
    by (rule nth_equalityI) (auto simp: assms(1) concat_nth_uniform [OF assms(1)] intro!: nth_equalityI)
  then show ?thesis
    using assms(2) by (simp add: tf_reshape2_def Let_def len)
qed

lemma tf_cast_int32_small: "y \<in> {- 1, 0, 1} \<Longrightarrow> tf_cast_int32 y = y"
  by (auto simp: tf_cast_int32_def)

lemma xent_row_two:
  assumes "length z = 2" "y = 0 \<or> y = 1"
  shows "xent_row z y = Some (cross_entropy2 z y)"
proof -
  from assms(1) obtain z0 z1 where z: "z = [z0, z1]"
    by (cases z; cases "tl z") auto
  show ?thesis
    using assms(2) by (auto simp: z xent_row_def softmax_def cross_entropy2_def)
qed


lemma sum_list_map_concat_map:
  fixes h :: "'b \<Rightarrow> real"
  shows "sum_list (map h (concat (map g xs))) = (\<Sum>x\<leftarrow>xs. sum_list (map h (g x)))"
  by (induction xs) simp_all

lemma length_concat_map: "length (concat (map g xs)) = (\<Sum>x\<leftarrow>xs. length (g x))"
  by (induction xs) simp_all

lemma length_filter_sum: "length (filter P xs) = (\<Sum>x\<leftarrow>xs. if P x then 1 else 0)"
  by (induction xs) simp_all

lemma sum_list_keep:
  fixes h :: "nat \<times> nat \<Rightarrow> real"
  shows "sum_list (map h (concat (map (\<lambda>i. map (Pair i) (filter (P i) [0..<a])) [0..<b])))
     = (\<Sum>i\<leftarrow>[0..<b]. \<Sum>j\<leftarrow>[0..<a]. if P i j then h (i, j) else 0)"
  by (simp add: sum_list_map_concat_map comp_def sum_list_map_filter')

lemma length_keep:
  "length (concat (map (\<lambda>i. map (Pair i) (filter (\<lambda>j. label ! i ! j \<noteq> - 1) [0..<a])) [0..<b]))
     = valid_count b a label"
  by (simp add: length_concat_map comp_def length_filter_sum valid_count_def)

lemma cls_loss_shaped:
  assumes "0 < b" and "shape3 b a 2 pre_score" and "shape2 b a label"
    and "list_all (list_all (\<lambda>l. l \<in> {- 1, 0, 1})) label"
  shows "cls_loss b pre_score label
     = Some (tf_reduce_mean (map (\<lambda>(i, j). cross_entropy2 (pre_score ! i ! j) (label ! i ! j))
         (concat (map (\<lambda>i. map (Pair i) (filter (\<lambda>j. label ! i ! j \<noteq> - 1) [0..<a])) [0..<b]))))"
proof -
  define keep where
    "keep = concat (map (\<lambda>i. map (Pair i) (filter (\<lambda>j. label ! i ! j \<noteq> - 1) [0..<a])) [0..<b])"
  have slen: "length pre_score = b" and srows: "\<And>i. i < b \<Longrightarrow> length (pre_score ! i) = a"
    and svecs: "\<And>i j. i < b \<Longrightarrow> j < a \<Longrightarrow> length (pre_score ! i ! j) = 2"
    using assms(2) by (simp_all add: shape3_def list_all_length)
  have llen: "length label = b" and lrows: "\<And>i. i < b \<Longrightarrow> length (label ! i) = a"
    using assms(3) by (simp_all add: shape2_def list_all_length)
  have lvals: "label ! i ! j \<in> {- 1, 0, 1}" if "i < b" "j < a" for i j
    using assms(4) that llen lrows by (simp add: list_all_length)
  have keep: "i < b \<and> j < a \<and> label ! i ! j \<noteq> - 1" if "(i, j) \<in> set keep" for i j
    using that unfolding keep_def by auto
  have r: "tf_reshape3 b 2 pre_score = Some pre_score"
    using assms(2,1) by (rule tf_reshape3_id) simp
  have w: "tf_where (tf_not_equal_scalar label (- 1)) = keep"
    unfolding keep_def using assms(3) by (rule tf_where_shaped)
  have g1: "tf_gather_nd pre_score keep = Some (map (\<lambda>(i, j). pre_score ! i ! j) keep)"
  proof (rule tf_gather_nd_in_range)
    fix i j assume "(i, j) \<in> set keep"
    then show "i < length pre_score \<and> j < length (pre_score ! i)"
      using keep [of i j] slen srows by simp
  qed
  have r2: "tf_reshape2 2 (map (\<lambda>(i, j). pre_score ! i ! j) keep)
      = Some (map (\<lambda>(i, j). pre_score ! i ! j) keep)"
  proof (rule tf_reshape2_id)
    show "\<forall>v\<in>set (map (\<lambda>(i, j). pre_score ! i ! j) keep). length v = 2"
    proof
      fix v assume "v \<in> set (map (\<lambda>(i, j). pre_score ! i ! j) keep)"
      then obtain i j where "(i, j) \<in> set keep" "v = pre_score ! i ! j"
        by auto
      then show "length v = 2"
        using keep [of i j] svecs by simp
    qed
  qed simp
  have g2: "tf_gather_nd label keep = Some (map (\<lambda>(i, j). label ! i ! j) keep)"
  proof (rule tf_gather_nd_in_range)
    fix i j assume "(i, j) \<in> set keep"
    then show "i < length label \<and> j < length (label ! i)"
      using keep [of i j] llen lrows by simp
  qed
  have x: "sparse_softmax_cross_entropy_with_logits (map (\<lambda>(i, j). pre_score ! i ! j) keep)
        (map tf_cast_int32 (tf_reshape1 (map (\<lambda>(i, j). label ! i ! j) keep)))
      = Some (map (\<lambda>(i, j). cross_entropy2 (pre_score ! i ! j) (label ! i ! j)) keep)"
  proof -
    have one: "xent_row (pre_score ! i ! j) (tf_cast_int32 (label ! i ! j))
        = Some (cross_entropy2 (pre_score ! i ! j) (label ! i ! j))" if "(i, j) \<in> set keep" for i j
    proof -
      from keep [OF that] have ij: "i < b" "j < a" and ne: "label ! i ! j \<noteq> - 1"
        by simp_all
      from lvals [OF ij] ne have v: "label ! i ! j = 0 \<or> label ! i ! j = 1"
        by auto
      have "tf_cast_int32 (label ! i ! j) = label ! i ! j"
        using lvals [OF ij] by (rule tf_cast_int32_small)
      then show ?thesis
        using xent_row_two [OF svecs [OF ij] v] by simp
    qed
    have "those (map (\<lambda>p. xent_row (case p of (i, j) \<Rightarrow> pre_score ! i ! j)
          (tf_cast_int32 (case p of (i, j) \<Rightarrow> label ! i ! j))) keep)
        = Some (map (\<lambda>(i, j). cross_entropy2 (pre_score ! i ! j) (label ! i ! j)) keep)"
    proof (rule those_map_eq_Some)
      fix p assume p: "p \<in> set keep"
      obtain i j where ij: "p = (i, j)" by (cases p)
      with p one [of i j] show "xent_row (case p of (i, j) \<Rightarrow> pre_score ! i ! j)
          (tf_cast_int32 (case p of (i, j) \<Rightarrow> label ! i ! j))
        = Some (case p of (i, j) \<Rightarrow> cross_entropy2 (pre_score ! i ! j) (label ! i ! j))"
        by simp
    qed
    then show ?thesis
      by (simp add: sparse_softmax_cross_entropy_with_logits_def tf_reshape1_def map2_same
          zip_map_map zip_same_conv_map comp_def split_def)
  qed
  have "cls_loss b pre_score label
     = Some (tf_reduce_mean (map (\<lambda>(i, j). cross_entropy2 (pre_score ! i ! j) (label ! i ! j)) keep))"
    by (simp add: cls_loss_def r w g1 r2 g2 x)
  then show ?thesis
    by (simp only: keep_def)
qed


lemma cls_loss_mean_valid:
  assumes "0 < b" and "shape3 b a 2 pre_score" and "shape2 b a label"
    and "list_all (list_all (\<lambda>l. l \<in> {- 1, 0, 1})) label"
    and "0 < valid_count b a label"
  shows "cls_loss b pre_score label = Some (Value (cls_loss_spec b a pre_score label))"
proof -
  define keep where
    "keep = concat (map (\<lambda>i. map (Pair i) (filter (\<lambda>j. label ! i ! j \<noteq> - 1) [0..<a])) [0..<b])"
  define h where "h = (\<lambda>(i, j). cross_entropy2 (pre_score ! i ! j) (label ! i ! j))"
  define total where "total = (\<Sum>i\<leftarrow>[0..<b]. \<Sum>j\<leftarrow>[0..<a].
           if label ! i ! j \<noteq> - 1 then cross_entropy2 (pre_score ! i ! j) (label ! i ! j) else 0)"
  have len: "length keep = valid_count b a label"
    unfolding keep_def by (rule length_keep)
  have ne: "map h keep \<noteq> []"
    using assms(5) len by (cases keep) simp_all
  have "sum_list (map h keep) = (\<Sum>i\<leftarrow>[0..<b]. \<Sum>j\<leftarrow>[0..<a].
           if label ! i ! j \<noteq> - 1 then h (i, j) else 0)"
    unfolding keep_def by (rule sum_list_keep)
  also have "\<dots> = total"
    by (simp only: h_def total_def prod.case)
  finally have sum: "sum_list (map h keep) = total" .
  have "cls_loss_spec b a pre_score label = total / real (valid_count b a label)"
    by (simp only: cls_loss_spec_def total_def)
  then have "tf_reduce_mean (map h keep) = Value (cls_loss_spec b a pre_score label)"
    using ne by (simp add: tf_reduce_mean_def sum len)
  moreover have "cls_loss b pre_score label = Some (tf_reduce_mean (map h keep))"
    unfolding keep_def h_def using assms(1-4) by (rule cls_loss_shaped)
  ultimately show ?thesis
    by simp
qed

text \<open>
  Claim C2. When at least one anchor has a label other than -1, \<^verbatim>\<open>Loss_op.loss\<close> returns as
  classification loss the mean of the two-class cross-entropy over exactly the anchors
  whose label is not -1: an ignored anchor adds nothing to the sum and nothing to the
  count that divides it. The scores have shape (batch, anchors, 2), the labels shape
  (batch, anchors) and values in \<open>{-1, 0, 1}\<close>, and the regression part returns.
\<close>

theorem loss_cls_loss_formula:
  assumes "anchor_tf self rnd gt (anchors self) = Some (label, target_box, iw, ow, all_box)"
    and "gt \<noteq> []"
    and "shape3 (length gt) a 2 pre_score" and "shape2 (length gt) a label"
    and "list_all (list_all (\<lambda>l. l \<in> {- 1, 0, 1})) label"
    and "0 < valid_count (length gt) a label"
    and "reg_loss (length gt) pre_box target_box iw ow = Some r"
  shows "loss self rnd gt pre_score pre_box
     = Some (Value (cls_loss_spec (length gt) a pre_score label), r, label, target_box)"
proof -
  have "0 < length gt"
    using assms(2) by simp
  then have "cls_loss (length gt) pre_score label
      = Some (Value (cls_loss_spec (length gt) a pre_score label))"
    using assms(3-6) by (rule cls_loss_mean_valid)
  then show ?thesis
    using loss_unfold [OF assms(1) _ assms(7)] by simp
qed


theorem loss_cls_loss_formula_witness:
  "loss \<lparr>anchors = [\<lparr>x_min = 0, y_min = 0, x_max = 1, y_max = 1\<rparr>,
                     \<lparr>x_min = 5, y_min = 5, x_max = 6, y_max = 6\<rparr>],
         anchor_tf = (\<lambda>(rnd :: unit) gt ancs.
            Some ([[1, - 1]], [[[0, 0, 0, 0], [0, 0, 0, 0]]], [[[1, 1, 1, 1], [0, 0, 0, 0]]],
                  [[[1, 1, 1, 1], [1, 1, 1, 1]]], [[[0, 0, 1, 1], [5, 5, 6, 6]]]))\<rparr>
      () [\<lparr>x_min = 0, y_min = 0, x_max = 1, y_max = 1\<rparr>] [[[0, 0], [5, 7]]]
      [[[2, 1 / 2, 0, 0], [9, 9, 9, 9]]]
   = Some (Value (ln 2), 65 / 4, [[1, - 1]], [[[0, 0, 0, 0], [0, 0, 0, 0]]])"
  (is "loss ?self () ?gt ?score ?box = _")
proof -
  let ?label = "[[1, - 1 :: int]]"
  let ?tb = "[[[0, 0, 0, 0], [0, 0, 0, 0 :: real]]]"
  let ?iw = "[[[1, 1, 1, 1], [0, 0, 0, 0 :: real]]]"
  let ?ow = "[[[1, 1, 1, 1], [1, 1, 1, 1 :: real]]]"
  have m: "anchor_tf ?self () ?gt (anchors ?self)
      = Some (?label, ?tb, ?iw, ?ow, [[[0, 0, 1, 1], [5, 5, 6, 6]]])"
    by simp
  have g: "?gt \<noteq> []"
    by simp
  have s3: "shape3 (length ?gt) 2 2 ?score"
    by (simp add: shape3_def)
  have s2: "shape2 (length ?gt) 2 ?label"
    by (simp add: shape2_def)
  have v: "list_all (list_all (\<lambda>l. l \<in> {- 1, 0, 1})) ?label"
    by simp
  have n: "0 < valid_count (length ?gt) 2 ?label"
    by (simp add: valid_count_def upt_small)
  have r: "reg_loss (length ?gt) ?box ?tb ?iw ?ow = Some (65 / 4)"
    using reg_loss_shaped [of "length ?gt" 2 ?box ?tb ?iw ?ow]
    by (simp add: shape3_def reg_loss_spec_def huber_def upt_small power2_eq_square)
  have c: "cls_loss_spec (length ?gt) 2 ?score ?label = ln 2"
    by (simp add: cls_loss_spec_def valid_count_def cross_entropy2_def upt_small ln_div)
  show ?thesis
    using loss_cls_loss_formula [OF m g s3 s2 v n r]
    by (simp only: c)
qed

text \<open>
  Without a single valid anchor the mean is taken over nothing: the classification loss
  is then NaN, which is why the statement above asks for one.
\<close>

lemma cls_loss_all_ignored_example: "cls_loss 1 [[[0, 0]]] [[- 1]] = Some NaN"
  by (simp add: cls_loss_def tf_reshape3_def tab3_def tf_where_def tf_not_equal_scalar_def
      tf_gather_nd_def tf_reshape2_def tf_reshape1_def
      sparse_softmax_cross_entropy_with_logits_def tf_reduce_mean_def upt_small)

section \<open>The anchors of the loss object\<close>

lemma loss_calls_frame:
  "loss_calls self calls
     = (map (\<lambda>args. loss self (arg_rnd args) (arg_gt args) (arg_pre_score args) (arg_pre_box args))
          calls, self)"
  by (induction calls) (simp_all add: loss_call_def)

text \<open>
  Claim C8. The anchors are computed in the constructor, as \<^verbatim>\<open>Anchor(49,49).anchors\<close>. Any
  sequence of calls of \<^verbatim>\<open>loss\<close> leaves the object as the constructor made it, so the
  stored anchors are still that value, and every call of the sequence is the loss on
  that same object: it hands those anchors to the matcher.
\<close>

theorem anchors_cached_across_loss_calls:
  "anchors (Loss_op_init Anchor Anchor_tf) = Anchor 49 49
   \<and> snd (loss_calls (Loss_op_init Anchor Anchor_tf) calls) = Loss_op_init Anchor Anchor_tf
   \<and> anchors (snd (loss_calls (Loss_op_init Anchor Anchor_tf) calls)) = Anchor 49 49
   \<and> fst (loss_calls (Loss_op_init Anchor Anchor_tf) calls)
       = map (\<lambda>args. do {
              (label, target_box, iw, ow, all_box) \<leftarrow> Anchor_tf (arg_rnd args) (arg_gt args) (Anchor 49 49);
              cls \<leftarrow> cls_loss (length (arg_gt args)) (arg_pre_score args) label;
              reg \<leftarrow> reg_loss (length (arg_gt args)) (arg_pre_box args) target_box iw ow;
              Some (cls, reg, label, target_box) }) calls"
  by (simp add: loss_calls_frame Loss_op_init_def loss_def Let_def)

theorem anchors_cached_across_loss_calls_witness:
  "anchors (snd (loss_calls
      (Loss_op_init (\<lambda>rows cols. [\<lparr>x_min = 0, y_min = 0, x_max = real rows, y_max = real cols\<rparr>])
         (\<lambda>(rnd :: unit) gt ancs. None))
      [\<lparr>arg_rnd = (), arg_gt = [], arg_pre_score = [], arg_pre_box = []\<rparr>,
       \<lparr>arg_rnd = (), arg_gt = [], arg_pre_score = [], arg_pre_box = []\<rparr>]))
   = [\<lparr>x_min = 0, y_min = 0, x_max = 49, y_max = 49\<rparr>]"
  using anchors_cached_across_loss_calls
    [of "\<lambda>rows cols. [\<lparr>x_min = 0, y_min = 0, x_max = real rows, y_max = real cols\<rparr>]"
        "\<lambda>(rnd :: unit) gt ancs. None"
        "[\<lparr>arg_rnd = (), arg_gt = [], arg_pre_score = [], arg_pre_box = []\<rparr>,
          \<lparr>arg_rnd = (), arg_gt = [], arg_pre_score = [], arg_pre_box = []\<rparr>]"]
  by simp

section \<open>The specified matcher: overlap and labels\<close>

lemma intersection_le_area:
  assumes "proper a"
  shows "0 \<le> intersection a g" and "intersection a g \<le> area a"
proof -
  let ?w = "max 0 (min (x_max a) (x_max g) - max (x_min a) (x_min g))"
  let ?h = "max 0 (min (y_max a) (y_max g) - max (y_min a) (y_min g))"
  have w: "0 \<le> ?w" "?w \<le> width a" and h: "0 \<le> ?h" "?h \<le> height a"
    using assms by (auto simp: proper_def width_def height_def)
  show "0 \<le> intersection a g"
    using w(1) h(1) by (simp add: intersection_def)
  have "?w * ?h \<le> width a * height a"
    using w h by (intro mult_mono) auto
  then show "intersection a g \<le> area a"
    by (simp add: intersection_def area_def)
qed

lemma iou_defined:
  assumes "proper a" "proper g"
  shows "iou a g = Some (intersection a g / (area a + area g - intersection a g))"
proof -
  have "0 < area g"
    using assms(2) by (simp add: proper_def area_def width_def height_def)
  moreover have "intersection a g \<le> area a"
    using assms(1) by (rule intersection_le_area)
  ultimately show ?thesis
    by (simp add: iou_def Let_def)
qed

lemma overlaps_defined:
  assumes "list_all proper ancs" "proper g"
  shows "overlaps ancs g
     = Some (map (\<lambda>a. intersection a g / (area a + area g - intersection a g)) ancs)"
  unfolding overlaps_def
proof (rule those_map_eq_Some)
  fix a assume "a \<in> set ancs"
  with assms(1) have "proper a"
    by (simp add: list_all_iff)
  then show "iou a g = Some (intersection a g / (area a + area g - intersection a g))"
    using assms(2) by (rule iou_defined)
qed

lemma assign_labels_length: "length (assign_labels cfg ious) = length ious"
  by (simp add: assign_labels_def)

lemma assign_labels_max:
  assumes "i < length ious" "ious ! i = Max (set ious)"
  shows "assign_labels cfg ious ! i = 1"
  using assms by (simp add: assign_labels_def)

lemma assign_labels_some_fg:
  assumes "ious \<noteq> []"
  shows "\<exists>i<length ious. assign_labels cfg ious ! i = 1"
proof -
  have "Max (set ious) \<in> set ious"
    using assms by (intro Max_in) simp_all
  then obtain i where "i < length ious" "ious ! i = Max (set ious)"
    by (auto simp: in_set_conv_nth)
  then show ?thesis
    using assign_labels_max by blast
qed

lemma assign_labels_values: "l \<in> set (assign_labels cfg ious) \<Longrightarrow> l \<in> {- 1, 0, 1}"
  by (auto simp: assign_labels_def)

section \<open>The specified matcher: subsampling\<close>

lemma subsample_length: "length (subsample cfg rnd labels) = length labels"
  by (simp add: subsample_def Let_def)

lemma subsample_nth:
  assumes "i < length labels"
  shows "subsample cfg rnd labels ! i
     = (if i \<in> set (take (fg_cap cfg) (filter (\<lambda>i. labels ! i = 1) (sort_key rnd [0..<length labels])))
        then 1
        else if i \<in> set (take (batch_budget cfg
                 - length (take (fg_cap cfg) (filter (\<lambda>i. labels ! i = 1) (sort_key rnd [0..<length labels]))))
               (filter (\<lambda>i. labels ! i = 0) (sort_key rnd [0..<length labels])))
        then 0 else - 1)"
  using assms by (simp add: subsample_def Let_def)

lemma subsample_only_demotes:
  assumes "i < length labels" "subsample cfg rnd labels ! i = 1"
  shows "labels ! i = 1"
proof -
  have "i \<in> set (take (fg_cap cfg) (filter (\<lambda>i. labels ! i = 1) (sort_key rnd [0..<length labels])))"
    using assms by (simp add: subsample_nth split: if_splits)
  then have "i \<in> set (filter (\<lambda>i. labels ! i = 1) (sort_key rnd [0..<length labels]))"
    by (rule in_set_takeD)
  then show ?thesis
    by simp
qed

lemma subsample_keeps_one:
  assumes "0 < fg_cap cfg" "\<exists>i<length labels. labels ! i = 1"
  shows "\<exists>i<length labels. subsample cfg rnd labels ! i = 1"
proof -
  let ?fg = "filter (\<lambda>i. labels ! i = 1) (sort_key rnd [0..<length labels])"
  from assms(2) obtain i where "i < length labels" "labels ! i = 1"
    by blast
  then have "i \<in> set ?fg"
    by simp
  then have "0 < length ?fg"
    by (rule length_pos_if_in_set)
  then have "?fg \<noteq> []"
    by (metis length_greater_0_conv)
  then have "take (fg_cap cfg) ?fg \<noteq> []"
    using assms(1) by simp
  then obtain k where k: "k \<in> set (take (fg_cap cfg) ?fg)"
    by (meson last_in_set)
  then have "k \<in> set ?fg"
    by (rule in_set_takeD)
  then have "k < length labels"
    by simp
  with k show ?thesis
    using subsample_nth [of k labels cfg rnd] by auto
qed

lemma length_filter_index:
  "length (filter (\<lambda>i. P (xs ! i)) (sort_key f [0..<length xs])) = length (filter P xs)"
proof -
  have "length (filter (\<lambda>i. P (xs ! i)) (sort_key f [0..<length xs]))
      = length (filter (\<lambda>i. P (xs ! i)) [0..<length xs])"
    by (simp add: filter_sort)
  also have "\<dots> = length (map (\<lambda>i. xs ! i) (filter (P \<circ> (\<lambda>i. xs ! i)) [0..<length xs]))"
    by (simp add: comp_def)
  also have "\<dots> = length (filter P (map (\<lambda>i. xs ! i) [0..<length xs]))"
    by (simp only: filter_map)
  also have "\<dots> = length (filter P xs)"
    by (simp add: map_nth)
  finally show ?thesis .
qed

lemma subsample_within_cap:
  assumes "length (filter (\<lambda>l. l = 1) labels) \<le> fg_cap cfg"
    and "i < length labels" "labels ! i = 1"
  shows "subsample cfg rnd labels ! i = 1"
proof -
  let ?fg = "filter (\<lambda>i. labels ! i = 1) (sort_key rnd [0..<length labels])"
  have "length ?fg \<le> fg_cap cfg"
    using assms(1) length_filter_index [of "\<lambda>l. l = 1" labels rnd] by simp
  then have "take (fg_cap cfg) ?fg = ?fg"
    by simp
  moreover have "i \<in> set ?fg"
    using assms(2,3) by simp
  ultimately show ?thesis
    using subsample_nth [OF assms(2), of cfg rnd] by simp
qed

lemma subsample_identity:
  assumes "length (filter (\<lambda>l. l = 1) labels) \<le> fg_cap cfg"
    and "length (filter (\<lambda>l. l = 0) labels) \<le> batch_budget cfg - length (filter (\<lambda>l. l = 1) labels)"
    and "\<And>l. l \<in> set labels \<Longrightarrow> l \<in> {- 1, 0, 1}"
  shows "subsample cfg rnd labels = labels"
proof (rule nth_equalityI)
  show "length (subsample cfg rnd labels) = length labels"
    by (rule subsample_length)
next
  fix i assume "i < length (subsample cfg rnd labels)"
  then have i: "i < length labels"
    by (simp add: subsample_length)
  let ?fg = "filter (\<lambda>i. labels ! i = 1) (sort_key rnd [0..<length labels])"
  let ?bg = "filter (\<lambda>i. labels ! i = 0) (sort_key rnd [0..<length labels])"
  have lfg: "length ?fg = length (filter (\<lambda>l. l = 1) labels)"
    by (rule length_filter_index)
  have lbg: "length ?bg = length (filter (\<lambda>l. l = 0) labels)"
    by (rule length_filter_index)
  have fg: "take (fg_cap cfg) ?fg = ?fg"
    using assms(1) lfg by simp
  have bg: "take (batch_budget cfg - length ?fg) ?bg = ?bg"
    using assms(2) lfg lbg by simp
  have "labels ! i \<in> {- 1, 0, 1}"
    using assms(3) i by simp
  then show "subsample cfg rnd labels ! i = labels ! i"
    using i by (auto simp: subsample_nth fg bg)
qed


section \<open>The specified matcher on a batch\<close>

lemma match_one_labels:
  assumes "overlaps ancs g = Some ious"
  shows "\<exists>rest. match_one cfg rnd ancs g = Some (subsample cfg rnd (assign_labels cfg ious), rest)"
  using assms by (simp add: match_one_def Let_def)

lemma pos_neg_anchor2_labels:
  assumes "list_all proper gt" "list_all proper ancs"
  shows "\<exists>rest. pos_neg_anchor2 cfg rnd gt ancs
     = Some (map (\<lambda>g. subsample cfg rnd (assign_labels cfg
               (map (\<lambda>a. intersection a g / (area a + area g - intersection a g)) ancs))) gt,
             rest)"
proof -
  let ?ious = "\<lambda>g. map (\<lambda>a. intersection a g / (area a + area g - intersection a g)) ancs"
  have "\<forall>g\<in>set gt. \<exists>rest. match_one cfg rnd ancs g
      = Some (subsample cfg rnd (assign_labels cfg (?ious g)), rest)"
  proof
    fix g assume "g \<in> set gt"
    with assms(1) have "proper g"
      by (simp add: list_all_iff)
    with assms(2) have "overlaps ancs g = Some (?ious g)"
      by (rule overlaps_defined)
    then show "\<exists>rest. match_one cfg rnd ancs g
      = Some (subsample cfg rnd (assign_labels cfg (?ious g)), rest)"
      by (rule match_one_labels)
  qed
  then obtain rest where rest: "\<forall>g\<in>set gt. match_one cfg rnd ancs g
      = Some (subsample cfg rnd (assign_labels cfg (?ious g)), rest g)"
    using bchoice [of "set gt" "\<lambda>g r. match_one cfg rnd ancs g
      = Some (subsample cfg rnd (assign_labels cfg (?ious g)), r)"] by blast
  have th: "those (map (match_one cfg rnd ancs) gt)
      = Some (map (\<lambda>g. (subsample cfg rnd (assign_labels cfg (?ious g)), rest g)) gt)"
    by (rule those_map_eq_Some) (use rest in blast)
  show ?thesis
    unfolding pos_neg_anchor2_def th
    by (simp add: comp_def split_def)
qed


lemma pos_neg_anchor2_row:
  assumes "list_all proper gt" "list_all proper ancs"
  shows "\<exists>label rest. pos_neg_anchor2 cfg rnd gt ancs = Some (label, rest)
     \<and> length label = length gt
     \<and> (\<forall>b<length gt. \<exists>ious. overlaps ancs (gt ! b) = Some ious \<and> length ious = length ancs
           \<and> label ! b = subsample cfg rnd (assign_labels cfg ious))"
proof -
  let ?ious = "\<lambda>g. map (\<lambda>a. intersection a g / (area a + area g - intersection a g)) ancs"
  from pos_neg_anchor2_labels [OF assms, of cfg rnd]
  obtain rest where out: "pos_neg_anchor2 cfg rnd gt ancs
     = Some (map (\<lambda>g. subsample cfg rnd (assign_labels cfg (?ious g))) gt, rest)"
    by blast
  have "overlaps ancs (gt ! b) = Some (?ious (gt ! b))" if "b < length gt" for b
  proof -
    from that assms(1) have "proper (gt ! b)"
      by (simp add: list_all_length)
    with assms(2) show ?thesis
      by (rule overlaps_defined)
  qed
  then have rows: "\<forall>b<length gt. \<exists>ious. overlaps ancs (gt ! b) = Some ious \<and> length ious = length ancs
           \<and> map (\<lambda>g. subsample cfg rnd (assign_labels cfg (?ious g))) gt ! b
               = subsample cfg rnd (assign_labels cfg ious)"
    by simp
  have "length (map (\<lambda>g. subsample cfg rnd (assign_labels cfg (?ious g))) gt) = length gt"
    by simp
  with out rows show ?thesis
    by blast
qed

text \<open>
  Claim C9, as amended. For ground-truth boxes and anchors of positive width and height,
  at least one anchor and a cap of at least 1, the matcher returns labels for every
  batch element, and there: its labelling step 2 marks as foreground every anchor whose
  IoU is the maximum over all anchors, whatever the thresholds; its output has at least
  one foreground anchor; and every anchor of maximal IoU is foreground in the output
  when the foreground anchors of the labelling step number at most the cap.
\<close>

theorem matcher_max_iou_foreground:
  assumes "list_all proper gt" "list_all proper ancs" "ancs \<noteq> []" "0 < fg_cap cfg"
  shows "\<exists>label rest. pos_neg_anchor2 cfg rnd gt ancs = Some (label, rest)
     \<and> length label = length gt
     \<and> (\<forall>b<length gt. \<exists>ious. overlaps ancs (gt ! b) = Some ious \<and> length ious = length ancs
           \<and> (\<forall>i<length ancs. ious ! i = Max (set ious) \<longrightarrow> assign_labels cfg ious ! i = 1)
           \<and> (\<exists>i<length ancs. label ! b ! i = 1)
           \<and> (length (filter (\<lambda>l. l = 1) (assign_labels cfg ious)) \<le> fg_cap cfg \<longrightarrow>
                (\<forall>i<length ancs. ious ! i = Max (set ious) \<longrightarrow> label ! b ! i = 1)))"
proof -
  from pos_neg_anchor2_row [OF assms(1,2), of cfg rnd]
  obtain label rest where out: "pos_neg_anchor2 cfg rnd gt ancs = Some (label, rest)"
    and len: "length label = length gt"
    and rows: "\<forall>b<length gt. \<exists>ious. overlaps ancs (gt ! b) = Some ious \<and> length ious = length ancs
           \<and> label ! b = subsample cfg rnd (assign_labels cfg ious)"
    by blast
  have "\<exists>ious. overlaps ancs (gt ! b) = Some ious \<and> length ious = length ancs
           \<and> (\<forall>i<length ancs. ious ! i = Max (set ious) \<longrightarrow> assign_labels cfg ious ! i = 1)
           \<and> (\<exists>i<length ancs. label ! b ! i = 1)
           \<and> (length (filter (\<lambda>l. l = 1) (assign_labels cfg ious)) \<le> fg_cap cfg \<longrightarrow>
                (\<forall>i<length ancs. ious ! i = Max (set ious) \<longrightarrow> label ! b ! i = 1))"
    if "b < length gt" for b
  proof -
    from rows that obtain ious where ov: "overlaps ancs (gt ! b) = Some ious"
      and n: "length ious = length ancs"
      and lab: "label ! b = subsample cfg rnd (assign_labels cfg ious)"
      by blast
    have step2: "\<forall>i<length ancs. ious ! i = Max (set ious) \<longrightarrow> assign_labels cfg ious ! i = 1"
      using n by (simp add: assign_labels_max)
    have "ious \<noteq> []"
      using n assms(3) by auto
    then have "\<exists>i<length (assign_labels cfg ious). assign_labels cfg ious ! i = 1"
      using assign_labels_some_fg [of ious cfg] by (simp add: assign_labels_length)
    then have "\<exists>i<length (assign_labels cfg ious). subsample cfg rnd (assign_labels cfg ious) ! i = 1"
      using assms(4) by (intro subsample_keeps_one)
    then have one: "\<exists>i<length ancs. label ! b ! i = 1"
      by (simp add: lab n assign_labels_length)
    have ties: "\<forall>i<length ancs. ious ! i = Max (set ious) \<longrightarrow> label ! b ! i = 1"
      if "length (filter (\<lambda>l. l = 1) (assign_labels cfg ious)) \<le> fg_cap cfg"
      using that step2 n by (simp add: lab subsample_within_cap assign_labels_length)
    from ov n step2 one ties show ?thesis
      by blast
  qed
  with out len show ?thesis
    by blast
qed

theorem matcher_max_iou_foreground_witness:
  "\<exists>label rest.
     pos_neg_anchor2 \<lparr>pos_threshold = 7 / 10, neg_threshold = 3 / 10, fg_cap = 16, batch_budget = 256\<rparr>
       (\<lambda>i. i) [\<lparr>x_min = 5, y_min = 0, x_max = 15, y_max = 10\<rparr>]
       [\<lparr>x_min = 0, y_min = 0, x_max = 10, y_max = 10\<rparr>,
        \<lparr>x_min = 20, y_min = 0, x_max = 30, y_max = 10\<rparr>] = Some (label, rest)
     \<and> length label = 1
     \<and> (\<exists>ious. overlaps [\<lparr>x_min = 0, y_min = 0, x_max = 10, y_max = 10\<rparr>,
                          \<lparr>x_min = 20, y_min = 0, x_max = 30, y_max = 10\<rparr>]
                  \<lparr>x_min = 5, y_min = 0, x_max = 15, y_max = 10\<rparr> = Some ious
           \<and> ious = [1 / 3, 0]
           \<and> assign_labels \<lparr>pos_threshold = 7 / 10, neg_threshold = 3 / 10, fg_cap = 16,
                  batch_budget = 256\<rparr> ious ! 0 = 1
           \<and> (\<exists>i<2. label ! 0 ! i = 1)
           \<and> label ! 0 ! 0 = 1)"
proof -
  let ?cfg = "\<lparr>pos_threshold = 7 / 10, neg_threshold = 3 / 10, fg_cap = 16, batch_budget = 256\<rparr>"
  let ?g = "\<lparr>x_min = 5, y_min = 0, x_max = 15, y_max = 10\<rparr>"
  let ?ancs = "[\<lparr>x_min = 0, y_min = 0, x_max = 10, y_max = 10\<rparr>,
        \<lparr>x_min = 20, y_min = 0, x_max = 30, y_max = 10\<rparr>]"
  have ov: "overlaps ?ancs ?g = Some [1 / 3, 0]"
    by (simp add: overlaps_def iou_def intersection_def area_def width_def height_def Let_def)
  have cnt: "length (filter (\<lambda>l. l = 1) (assign_labels ?cfg [1 / 3, 0])) \<le> fg_cap ?cfg"
    by (simp add: assign_labels_def)
  have top: "[1 / 3, 0 :: real] ! 0 = Max (set [1 / 3, 0])"
    by simp
  have hyps: "list_all proper [?g]" "list_all proper ?ancs" "?ancs \<noteq> []" "0 < fg_cap ?cfg"
    by (simp_all add: proper_def)
  from matcher_max_iou_foreground [OF hyps, of "\<lambda>i. i"]
  obtain label rest where out: "pos_neg_anchor2 ?cfg (\<lambda>i. i) [?g] ?ancs = Some (label, rest)"
    and len: "length label = length [?g]"
    and rows: "\<forall>b<length [?g]. \<exists>ious. overlaps ?ancs ([?g] ! b) = Some ious
           \<and> length ious = length ?ancs
           \<and> (\<forall>i<length ?ancs. ious ! i = Max (set ious) \<longrightarrow> assign_labels ?cfg ious ! i = 1)
           \<and> (\<exists>i<length ?ancs. label ! b ! i = 1)
           \<and> (length (filter (\<lambda>l. l = 1) (assign_labels ?cfg ious)) \<le> fg_cap ?cfg \<longrightarrow>
                (\<forall>i<length ?ancs. ious ! i = Max (set ious) \<longrightarrow> label ! b ! i = 1))"
    by blast
  from rows have "\<exists>ious. overlaps ?ancs ?g = Some ious
           \<and> (\<forall>i<length ?ancs. ious ! i = Max (set ious) \<longrightarrow> assign_labels ?cfg ious ! i = 1)
           \<and> (\<exists>i<length ?ancs. label ! 0 ! i = 1)
           \<and> (length (filter (\<lambda>l. l = 1) (assign_labels ?cfg ious)) \<le> fg_cap ?cfg \<longrightarrow>
                (\<forall>i<length ?ancs. ious ! i = Max (set ious) \<longrightarrow> label ! 0 ! i = 1))"
    by auto
  then have row: "(\<forall>i<length ?ancs. [1 / 3, 0] ! i = Max (set [1 / 3, 0 :: real])
                \<longrightarrow> assign_labels ?cfg [1 / 3, 0] ! i = 1)
           \<and> (\<exists>i<length ?ancs. label ! 0 ! i = 1)
           \<and> (\<forall>i<length ?ancs. [1 / 3, 0] ! i = Max (set [1 / 3, 0 :: real]) \<longrightarrow> label ! 0 ! i = 1)"
    using cnt by (simp only: ov option.inject simp_thms ex_simps) blast
  have "assign_labels ?cfg [1 / 3, 0] ! 0 = 1" "label ! 0 ! 0 = 1"
    using row top by (metis length_Cons zero_less_Suc)+
  moreover have "\<exists>i<2. label ! 0 ! i = 1"
    using row by (simp add: numeral_2_eq_2)
  moreover have "length label = 1"
    using len by simp
  ultimately show ?thesis
    using out ov by blast
qed

lemma upt_17: "[0..<17] = [0, 1, 2, 3, 4, 5, 6, 7, 8, 9, 10, 11, 12, 13, 14, 15, 16]"
  by code_simp

lemma overlaps_row_of_17:
  "overlaps (map (\<lambda>i. \<lparr>x_min = real i * 10, y_min = 0, x_max = real i * 10 + 5, y_max = 5\<rparr>) [0..<17])
      \<lparr>x_min = 0, y_min = 100, x_max = 5, y_max = 105\<rparr>
   = Some (replicate 17 0)"
  by (simp add: overlaps_def upt_17 iou_def intersection_def area_def width_def height_def Let_def
      eval_nat_numeral)

lemma labels_row_of_17:
  "subsample \<lparr>pos_threshold = 7 / 10, neg_threshold = 3 / 10, fg_cap = 16, batch_budget = 256\<rparr>
      (\<lambda>i. i)
      (assign_labels \<lparr>pos_threshold = 7 / 10, neg_threshold = 3 / 10, fg_cap = 16, batch_budget = 256\<rparr>
         (replicate 17 0))
   = replicate 16 1 @ [- 1]"
  by (simp add: assign_labels_def subsample_def Let_def upt_17 eval_nat_numeral)


lemma proper_row_of_17:
  "list_all proper (map (\<lambda>i. \<lparr>x_min = real i * 10, y_min = 0, x_max = real i * 10 + 5, y_max = 5\<rparr>) [0..<17])"
  by (simp add: list_all_iff proper_def)

text \<open>
  Claim C9 as stated fails beyond the cap. With the cap of 16 and 17 anchors in a row,
  none of which meets the ground-truth box, every anchor has IoU 0, the maximum; the
  labelling step marks all 17 foreground, and the subsampling keeps 16: the last anchor in
  the order of the draw has maximal IoU and the label ignore.
\<close>

theorem matcher_ties_beyond_cap_counterexample:
  "overlaps (map (\<lambda>i. \<lparr>x_min = real i * 10, y_min = 0, x_max = real i * 10 + 5, y_max = 5\<rparr>) [0..<17])
      \<lparr>x_min = 0, y_min = 100, x_max = 5, y_max = 105\<rparr> = Some (replicate 17 0)
   \<and> replicate 17 (0 :: real) ! 16 = Max (set (replicate 17 0))
   \<and> map_option fst
        (pos_neg_anchor2 \<lparr>pos_threshold = 7 / 10, neg_threshold = 3 / 10, fg_cap = 16, batch_budget = 256\<rparr>
          (\<lambda>i. i) [\<lparr>x_min = 0, y_min = 100, x_max = 5, y_max = 105\<rparr>]
          (map (\<lambda>i. \<lparr>x_min = real i * 10, y_min = 0, x_max = real i * 10 + 5, y_max = 5\<rparr>) [0..<17]))
      = Some [replicate 16 1 @ [- 1]]
   \<and> (replicate 16 1 @ [- 1 :: int]) ! 16 = - 1"
proof -
  let ?cfg = "\<lparr>pos_threshold = 7 / 10, neg_threshold = 3 / 10, fg_cap = 16, batch_budget = 256\<rparr>"
  let ?g = "\<lparr>x_min = 0, y_min = 100, x_max = 5, y_max = 105\<rparr>"
  let ?ancs = "map (\<lambda>i. \<lparr>x_min = real i * 10, y_min = 0, x_max = real i * 10 + 5, y_max = 5\<rparr>) [0..<17]"
  have g: "list_all proper [?g]"
    by (simp add: proper_def)
  from pos_neg_anchor2_row [OF g proper_row_of_17, of ?cfg "\<lambda>i. i"]
  obtain label rest where out: "pos_neg_anchor2 ?cfg (\<lambda>i. i) [?g] ?ancs = Some (label, rest)"
    and len: "length label = length [?g]"
    and rows: "\<forall>b<length [?g]. \<exists>ious. overlaps ?ancs ([?g] ! b) = Some ious
           \<and> length ious = length ?ancs
           \<and> label ! b = subsample ?cfg (\<lambda>i. i) (assign_labels ?cfg ious)"
    by blast
  from rows have "\<exists>ious. overlaps ?ancs ?g = Some ious
           \<and> label ! 0 = subsample ?cfg (\<lambda>i. i) (assign_labels ?cfg ious)"
    by auto
  then have "label ! 0 = subsample ?cfg (\<lambda>i. i) (assign_labels ?cfg (replicate 17 0))"
    by (simp only: overlaps_row_of_17 option.inject simp_thms ex_simps)
  then have "label ! 0 = replicate 16 1 @ [- 1]"
    by (simp only: labels_row_of_17)
  moreover have "label = [label ! 0]"
    using len by (cases label) simp_all
  ultimately have "label = [replicate 16 1 @ [- 1]]"
    by simp
  then have "map_option fst (pos_neg_anchor2 ?cfg (\<lambda>i. i) [?g] ?ancs) = Some [replicate 16 1 @ [- 1]]"
    by (simp add: out)
  moreover have "replicate 17 (0 :: real) ! 16 = Max (set (replicate 17 0))"
    by simp
  moreover have "(replicate 16 1 @ [- 1 :: int]) ! 16 = - 1"
    by (simp add: nth_append)
  ultimately show ?thesis
    using overlaps_row_of_17 by blast
qed

section \<open>The loss on the specified matcher\<close>

lemma subsample_values: "l \<in> set (subsample cfg rnd labels) \<Longrightarrow> l \<in> {- 1, 0, 1}"
  by (auto simp: subsample_def Let_def)

lemma match_one_explicit:
  assumes "overlaps ancs g = Some ious"
  shows "match_one cfg rnd ancs g
     = Some (subsample cfg rnd (assign_labels cfg ious),
          map2 (\<lambda>a l. if l = 1 then encode_target a g else [0, 0, 0, 0]) ancs
            (subsample cfg rnd (assign_labels cfg ious)),
          map (\<lambda>l. if l = 1 then [1, 1, 1, 1] else [0, 0, 0, 0])
            (subsample cfg rnd (assign_labels cfg ious)),
          map (\<lambda>l. replicate 4
                 (1 / real (max 1 (length (filter (\<lambda>l. l = 1)
                     (subsample cfg rnd (assign_labels cfg ious)))))))
            (subsample cfg rnd (assign_labels cfg ious)),
          map (\<lambda>a. [x_min a, y_min a, x_max a, y_max a]) ancs)"
  using assms by (simp add: match_one_def Let_def eval_nat_numeral)

lemma pos_neg_anchor2_shapes:
  assumes "list_all proper gt" "list_all proper ancs"
  shows "\<exists>label tb iw ow ab. pos_neg_anchor2 cfg rnd gt ancs = Some (label, tb, iw, ow, ab)
     \<and> label = map (\<lambda>g. subsample cfg rnd (assign_labels cfg (the (overlaps ancs g)))) gt
     \<and> shape2 (length gt) (length ancs) label
     \<and> list_all (list_all (\<lambda>l. l \<in> {- 1, 0, 1})) label
     \<and> shape3 (length gt) (length ancs) 4 tb
     \<and> shape3 (length gt) (length ancs) 4 iw
     \<and> shape3 (length gt) (length ancs) 4 ow"
proof -
  define L where "L = (\<lambda>g. subsample cfg rnd (assign_labels cfg (the (overlaps ancs g))))"
  define T where "T = (\<lambda>g. map2 (\<lambda>a l. if l = 1 then encode_target a g else [0, 0, 0, 0]) ancs (L g))"
  define IW where "IW = (\<lambda>g. map (\<lambda>l. if l = (1 :: int) then [1, 1, 1, 1] else [0, 0, 0, 0 :: real]) (L g))"
  define OW where "OW = (\<lambda>g. map (\<lambda>l. replicate 4
                 (1 / real (max 1 (length (filter (\<lambda>l. l = 1) (L g)))))) (L g))"
  define AB where "AB = (\<lambda>g :: box. map (\<lambda>a. [x_min a, y_min a, x_max a, y_max a]) ancs)"
  have ov: "overlaps ancs g = Some (the (overlaps ancs g))"
    and lenL: "length (L g) = length ancs" if "g \<in> set gt" for g
  proof -
    from that assms(1) have "proper g"
      by (simp add: list_all_iff)
    with assms(2) have "overlaps ancs g
        = Some (map (\<lambda>a. intersection a g / (area a + area g - intersection a g)) ancs)"
      by (rule overlaps_defined)
    then show "overlaps ancs g = Some (the (overlaps ancs g))" "length (L g) = length ancs"
      by (simp_all add: L_def subsample_length assign_labels_length)
  qed
  have one: "match_one cfg rnd ancs g = Some (L g, T g, IW g, OW g, AB g)" if "g \<in> set gt" for g
    using ov [OF that] unfolding L_def T_def IW_def OW_def AB_def by (rule match_one_explicit)
  have "those (map (match_one cfg rnd ancs) gt) = Some (map (\<lambda>g. (L g, T g, IW g, OW g, AB g)) gt)"
    by (rule those_map_eq_Some) (rule one)
  then have out: "pos_neg_anchor2 cfg rnd gt ancs
      = Some (map L gt, map T gt, map IW gt, map OW gt, map AB gt)"
    by (simp add: pos_neg_anchor2_def comp_def)
  have s2: "shape2 (length gt) (length ancs) (map L gt)"
    by (simp add: shape2_def list_all_iff lenL)
  have vals: "list_all (list_all (\<lambda>l. l \<in> {- 1, 0, 1})) (map L gt)"
    unfolding L_def list_all_iff using subsample_values by fastforce
  have sT: "shape3 (length gt) (length ancs) 4 (map T gt)"
    unfolding shape3_def list_all_iff
    by (auto simp: T_def lenL encode_target_def set_zip)
  have sIW: "shape3 (length gt) (length ancs) 4 (map IW gt)"
    unfolding shape3_def list_all_iff by (auto simp: IW_def lenL)
  have sOW: "shape3 (length gt) (length ancs) 4 (map OW gt)"
    unfolding shape3_def list_all_iff by (auto simp: OW_def lenL)
  from out s2 vals sT sIW sOW show ?thesis
    unfolding L_def by blast
qed

lemma loss_on_matcher_returns:
  assumes "list_all proper gt" "list_all proper ancs" "gt \<noteq> []"
    and "shape3 (length gt) (length ancs) 2 pre_score"
    and "shape3 (length gt) (length ancs) 4 pre_box"
  shows "\<exists>cls reg tb. loss \<lparr>anchors = ancs, anchor_tf = pos_neg_anchor2 cfg\<rparr> rnd gt pre_score pre_box
     = Some (cls, reg,
          map (\<lambda>g. subsample cfg rnd (assign_labels cfg (the (overlaps ancs g)))) gt, tb)"
proof -
  from pos_neg_anchor2_shapes [OF assms(1,2), of cfg rnd]
  obtain label tb iw ow ab where out: "pos_neg_anchor2 cfg rnd gt ancs = Some (label, tb, iw, ow, ab)"
    and lab: "label = map (\<lambda>g. subsample cfg rnd (assign_labels cfg (the (overlaps ancs g)))) gt"
    and s2: "shape2 (length gt) (length ancs) label"
    and vals: "list_all (list_all (\<lambda>l. l \<in> {- 1, 0, 1})) label"
    and shapes: "shape3 (length gt) (length ancs) 4 tb" "shape3 (length gt) (length ancs) 4 iw"
      "shape3 (length gt) (length ancs) 4 ow"
    by blast
  have b: "0 < length gt"
    using assms(3) by simp
  have m: "anchor_tf \<lparr>anchors = ancs, anchor_tf = pos_neg_anchor2 cfg\<rparr> rnd gt
      (anchors \<lparr>anchors = ancs, anchor_tf = pos_neg_anchor2 cfg\<rparr>) = Some (label, tb, iw, ow, ab)"
    using out by simp
  from cls_loss_shaped [OF b assms(4) s2 vals]
  obtain c where c: "cls_loss (length gt) pre_score label = Some c"
    by blast
  from reg_loss_shaped [OF b assms(5) shapes]
  obtain r where r: "reg_loss (length gt) pre_box tb iw ow = Some r"
    by blast
  from loss_unfold [OF m c r] show ?thesis
    unfolding lab by blast
qed


lemma subsample_draw_irrelevant:
  assumes "length (filter (\<lambda>l. l = 1) (assign_labels cfg ious)) \<le> fg_cap cfg"
    and "length (filter (\<lambda>l. l = 0) (assign_labels cfg ious))
          \<le> batch_budget cfg - length (filter (\<lambda>l. l = 1) (assign_labels cfg ious))"
  shows "subsample cfg rnd (assign_labels cfg ious) = assign_labels cfg ious"
  using assms by (rule subsample_identity) (rule assign_labels_values)

lemma match_one_draw_irrelevant:
  assumes "\<forall>ious. overlaps ancs g = Some ious \<longrightarrow>
             length (filter (\<lambda>l. l = 1) (assign_labels cfg ious)) \<le> fg_cap cfg
           \<and> length (filter (\<lambda>l. l = 0) (assign_labels cfg ious))
                \<le> batch_budget cfg - length (filter (\<lambda>l. l = 1) (assign_labels cfg ious))"
  shows "match_one cfg rnd1 ancs g = match_one cfg rnd2 ancs g"
proof (cases "overlaps ancs g")
  case None
  then show ?thesis
    by (simp add: match_one_def)
next
  case (Some ious)
  with assms have "subsample cfg rnd1 (assign_labels cfg ious) = assign_labels cfg ious"
    "subsample cfg rnd2 (assign_labels cfg ious) = assign_labels cfg ious"
    by (simp_all add: subsample_draw_irrelevant)
  then show ?thesis
    by (simp add: match_one_explicit [OF Some])
qed

text \<open>
  Claim C7, as amended. A call of \<^verbatim>\<open>loss\<close> leaves the loss object as it was, and two calls
  with the same ground truth, anchors and network tensors return the same result,
  whatever the matcher draws at random, provided no batch element needs subsampling:
  its foreground anchors of the labelling step number at most the cap and its
  background anchors fit the rest of the budget.
\<close>

theorem loss_deterministic_within_caps:
  assumes "\<forall>g\<in>set gt. \<forall>ious. overlaps ancs g = Some ious \<longrightarrow>
             length (filter (\<lambda>l. l = 1) (assign_labels cfg ious)) \<le> fg_cap cfg
           \<and> length (filter (\<lambda>l. l = 0) (assign_labels cfg ious))
                \<le> batch_budget cfg - length (filter (\<lambda>l. l = 1) (assign_labels cfg ious))"
  shows "loss \<lparr>anchors = ancs, anchor_tf = pos_neg_anchor2 cfg\<rparr> rnd1 gt pre_score pre_box
       = loss \<lparr>anchors = ancs, anchor_tf = pos_neg_anchor2 cfg\<rparr> rnd2 gt pre_score pre_box
     \<and> snd (loss_call \<lparr>anchors = ancs, anchor_tf = pos_neg_anchor2 cfg\<rparr>
          \<lparr>arg_rnd = rnd1, arg_gt = gt, arg_pre_score = pre_score, arg_pre_box = pre_box\<rparr>)
       = \<lparr>anchors = ancs, anchor_tf = pos_neg_anchor2 cfg\<rparr>"
proof -
  have "map (match_one cfg rnd1 ancs) gt = map (match_one cfg rnd2 ancs) gt"
    by (rule map_cong [OF refl]) (use assms in \<open>blast intro: match_one_draw_irrelevant\<close>)
  then have "pos_neg_anchor2 cfg rnd1 gt ancs = pos_neg_anchor2 cfg rnd2 gt ancs"
    by (simp only: pos_neg_anchor2_def)
  then show ?thesis
    by (simp add: loss_def loss_call_def)
qed


theorem loss_deterministic_within_caps_witness:
  "loss \<lparr>anchors = [\<lparr>x_min = 0, y_min = 0, x_max = 10, y_max = 10\<rparr>,
                     \<lparr>x_min = 20, y_min = 0, x_max = 30, y_max = 10\<rparr>],
         anchor_tf = pos_neg_anchor2
           \<lparr>pos_threshold = 7 / 10, neg_threshold = 3 / 10, fg_cap = 16, batch_budget = 256\<rparr>\<rparr>
      (\<lambda>i. i) [\<lparr>x_min = 5, y_min = 0, x_max = 15, y_max = 10\<rparr>]
      [[[0, 0], [0, 0]]] [[[0, 0, 0, 0], [0, 0, 0, 0]]]
   = loss \<lparr>anchors = [\<lparr>x_min = 0, y_min = 0, x_max = 10, y_max = 10\<rparr>,
                     \<lparr>x_min = 20, y_min = 0, x_max = 30, y_max = 10\<rparr>],
         anchor_tf = pos_neg_anchor2
           \<lparr>pos_threshold = 7 / 10, neg_threshold = 3 / 10, fg_cap = 16, batch_budget = 256\<rparr>\<rparr>
      (\<lambda>i. 1 - i) [\<lparr>x_min = 5, y_min = 0, x_max = 15, y_max = 10\<rparr>]
      [[[0, 0], [0, 0]]] [[[0, 0, 0, 0], [0, 0, 0, 0]]]
   \<and> (\<exists>cls reg tb.
        loss \<lparr>anchors = [\<lparr>x_min = 0, y_min = 0, x_max = 10, y_max = 10\<rparr>,
                     \<lparr>x_min = 20, y_min = 0, x_max = 30, y_max = 10\<rparr>],
         anchor_tf = pos_neg_anchor2
           \<lparr>pos_threshold = 7 / 10, neg_threshold = 3 / 10, fg_cap = 16, batch_budget = 256\<rparr>\<rparr>
      (\<lambda>i. i) [\<lparr>x_min = 5, y_min = 0, x_max = 15, y_max = 10\<rparr>]
      [[[0, 0], [0, 0]]] [[[0, 0, 0, 0], [0, 0, 0, 0]]] = Some (cls, reg, [[1, 0]], tb))"
  (is "loss ?self ?r1 ?gt ?s ?b = loss ?self ?r2 ?gt ?s ?b \<and> ?returns")
proof -
  let ?cfg = "\<lparr>pos_threshold = 7 / 10, neg_threshold = 3 / 10, fg_cap = 16, batch_budget = 256\<rparr>"
  let ?g = "\<lparr>x_min = 5, y_min = 0, x_max = 15, y_max = 10\<rparr>"
  let ?ancs = "[\<lparr>x_min = 0, y_min = 0, x_max = 10, y_max = 10\<rparr>,
        \<lparr>x_min = 20, y_min = 0, x_max = 30, y_max = 10\<rparr>]"
  have ov: "overlaps ?ancs ?g = Some [1 / 3, 0]"
    by (simp add: overlaps_def iou_def intersection_def area_def width_def height_def Let_def)
  have caps: "\<forall>g\<in>set ?gt. \<forall>ious. overlaps ?ancs g = Some ious \<longrightarrow>
             length (filter (\<lambda>l. l = 1) (assign_labels ?cfg ious)) \<le> fg_cap ?cfg
           \<and> length (filter (\<lambda>l. l = 0) (assign_labels ?cfg ious))
                \<le> batch_budget ?cfg - length (filter (\<lambda>l. l = 1) (assign_labels ?cfg ious))"
    by (simp add: ov assign_labels_def)
  have eq: "loss ?self ?r1 ?gt ?s ?b = loss ?self ?r2 ?gt ?s ?b"
    using loss_deterministic_within_caps [OF caps, of ?r1 ?s ?b ?r2] by simp
  have labels: "subsample ?cfg ?r1 (assign_labels ?cfg [1 / 3, 0]) = [1, 0]"
    by (simp add: assign_labels_def subsample_def Let_def upt_small)
  have hyps: "list_all proper ?gt" "list_all proper ?ancs" "?gt \<noteq> []"
    "shape3 (length ?gt) (length ?ancs) 2 ?s" "shape3 (length ?gt) (length ?ancs) 4 ?b"
    by (simp_all add: proper_def shape3_def)
  have ?returns
    using loss_on_matcher_returns [OF hyps, of ?cfg ?r1]
    by (simp only: list.map ov option.sel labels)
  with eq show ?thesis
    by blast
qed

lemma labels_row_of_17_reversed:
  "subsample \<lparr>pos_threshold = 7 / 10, neg_threshold = 3 / 10, fg_cap = 16, batch_budget = 256\<rparr>
      (\<lambda>i. 16 - i)
      (assign_labels \<lparr>pos_threshold = 7 / 10, neg_threshold = 3 / 10, fg_cap = 16, batch_budget = 256\<rparr>
         (replicate 17 0))
   = - 1 # replicate 16 1"
  by (simp add: assign_labels_def subsample_def Let_def upt_17 eval_nat_numeral)

text \<open>
  Claim C7 as stated fails on the matcher of the specification, whose subsampling is
  random. With the cap of 16 and 17 anchors that all miss the ground-truth box, two calls
  of \<^verbatim>\<open>loss\<close> on the same object with the same arguments, the one drawing the anchors in
  their order and the other in the reverse order, return different labels.
\<close>

theorem loss_depends_on_draw_counterexample:
  "loss \<lparr>anchors = map (\<lambda>i. \<lparr>x_min = real i * 10, y_min = 0, x_max = real i * 10 + 5, y_max = 5\<rparr>) [0..<17],
         anchor_tf = pos_neg_anchor2
           \<lparr>pos_threshold = 7 / 10, neg_threshold = 3 / 10, fg_cap = 16, batch_budget = 256\<rparr>\<rparr>
      (\<lambda>i. i) [\<lparr>x_min = 0, y_min = 100, x_max = 5, y_max = 105\<rparr>]
      [replicate 17 [0, 0]] [replicate 17 [0, 0, 0, 0]]
   \<noteq> loss \<lparr>anchors = map (\<lambda>i. \<lparr>x_min = real i * 10, y_min = 0, x_max = real i * 10 + 5, y_max = 5\<rparr>) [0..<17],
         anchor_tf = pos_neg_anchor2
           \<lparr>pos_threshold = 7 / 10, neg_threshold = 3 / 10, fg_cap = 16, batch_budget = 256\<rparr>\<rparr>
      (\<lambda>i. 16 - i) [\<lparr>x_min = 0, y_min = 100, x_max = 5, y_max = 105\<rparr>]
      [replicate 17 [0, 0]] [replicate 17 [0, 0, 0, 0]]"
  (is "loss ?self ?r1 ?gt ?s ?b \<noteq> loss ?self ?r2 ?gt ?s ?b")
proof -
  let ?cfg = "\<lparr>pos_threshold = 7 / 10, neg_threshold = 3 / 10, fg_cap = 16, batch_budget = 256\<rparr>"
  let ?g = "\<lparr>x_min = 0, y_min = 100, x_max = 5, y_max = 105\<rparr>"
  let ?ancs = "map (\<lambda>i. \<lparr>x_min = real i * 10, y_min = 0, x_max = real i * 10 + 5, y_max = 5\<rparr>) [0..<17]"
  have g: "list_all proper ?gt" "?gt \<noteq> []"
    by (simp_all add: proper_def)
  have shapes: "shape3 (length ?gt) (length ?ancs) 2 ?s" "shape3 (length ?gt) (length ?ancs) 4 ?b"
    by (simp_all add: shape3_def list_all_iff)
  from loss_on_matcher_returns [OF g(1) proper_row_of_17 g(2) shapes, of ?cfg ?r1]
  obtain c1 v1 t1 where one: "loss ?self ?r1 ?gt ?s ?b = Some (c1, v1, [replicate 16 1 @ [- 1]], t1)"
    unfolding list.map overlaps_row_of_17 option.sel labels_row_of_17 by blast
  from loss_on_matcher_returns [OF g(1) proper_row_of_17 g(2) shapes, of ?cfg ?r2]
  obtain c2 v2 t2 where two: "loss ?self ?r2 ?gt ?s ?b = Some (c2, v2, [- 1 # replicate 16 1], t2)"
    unfolding list.map overlaps_row_of_17 option.sel labels_row_of_17_reversed by blast
  have "replicate 16 1 @ [- 1] \<noteq> - 1 # replicate 16 (1 :: int)"
    by (simp add: eval_nat_numeral)
  then show ?thesis
    unfolding one two by simp
qed

section \<open>The regression loss on 32-bit values\<close>

lemma tf_reshape3_same_shape:
  assumes "shape3 b a k t" "0 < k"
  shows "tf_reshape3 b k t = Some t"
proof (cases "b = 0")
  case True
  with assms(1) have "t = []"
    by (simp add: shape3_def)
  with True show ?thesis
    by (simp add: tf_reshape3_def)
next
  case False
  then show ?thesis
    using assms by (simp add: tf_reshape3_id)
qed

lemma smooth_l1_f32_tab3:
  "smooth_l1_f32 (tab3 b a k p) (tab3 b a k t) (tab3 b a k iw) (tab3 b a k ow)
     = Some (tab3 b a k (\<lambda>i j l. smooth_l1_entry_f32 (p i j l) (t i j l) (iw i j l) (ow i j l)))"
  by (simp add: smooth_l1_f32_def tf_binop_tab3 map3_tab3 smooth_l1_entry_f32_def Let_def)

lemma smooth_l1_f32_shaped:
  assumes "shape3 b a k pre_box" "shape3 b a k target_box" "shape3 b a k iw" "shape3 b a k ow"
  shows "smooth_l1_f32 pre_box target_box iw ow
     = Some (tab3 b a k (\<lambda>i j l.
         smooth_l1_entry_f32 (pre_box ! i ! j ! l) (target_box ! i ! j ! l) (iw ! i ! j ! l)
           (ow ! i ! j ! l)))"
proof -
  have "smooth_l1_f32 (tab3 b a k (\<lambda>i j l. pre_box ! i ! j ! l)) (tab3 b a k (\<lambda>i j l. target_box ! i ! j ! l))
          (tab3 b a k (\<lambda>i j l. iw ! i ! j ! l)) (tab3 b a k (\<lambda>i j l. ow ! i ! j ! l))
     = Some (tab3 b a k (\<lambda>i j l.
         smooth_l1_entry_f32 (pre_box ! i ! j ! l) (target_box ! i ! j ! l) (iw ! i ! j ! l)
           (ow ! i ! j ! l)))"
    by (rule smooth_l1_f32_tab3)
  then show ?thesis
    using assms by (simp flip: shape3_as_tab3)
qed

lemma round_f32_in_range: "in_f32_range x \<Longrightarrow> round_f32 x = Finite x"
  by (auto simp: in_f32_range_def round_f32_def)

lemma overflow_f32_large: "2 < overflow_f32"
  by (simp add: overflow_f32_def)

lemma in_f32_range_small: "\<bar>x\<bar> \<le> 2 \<Longrightarrow> in_f32_range x"
  using overflow_f32_large by (simp add: in_f32_range_def)

lemma in_f32_range_mono: "in_f32_range y \<Longrightarrow> \<bar>x\<bar> \<le> \<bar>y\<bar> \<Longrightarrow> in_f32_range x"
  by (simp add: in_f32_range_def)

lemma sub_f32_finite: "in_f32_range (x - y) \<Longrightarrow> sub_f32 (Finite x) (Finite y) = Finite (x - y)"
  by (simp add: sub_f32_def round_f32_in_range)

lemma mul_f32_finite: "in_f32_range (x * y) \<Longrightarrow> mul_f32 (Finite x) (Finite y) = Finite (x * y)"
  by (simp add: round_f32_in_range)

lemma add_f32_finite: "in_f32_range (x + y) \<Longrightarrow> add_f32 (Finite x) (Finite y) = Finite (x + y)"
  by (simp add: round_f32_in_range)

lemma smooth_l1_entry_f32_in_range:
  assumes "in_f32_range (p - t)" and "in_f32_range ((iw * (p - t))\<^sup>2)"
    and "in_f32_range (huber (iw * (p - t)) * ow)"
  shows "smooth_l1_entry_f32 (Finite p) (Finite t) (Finite iw) (Finite ow)
     = Finite (huber (iw * (p - t)) * ow)"
proof -
  define d where "d = iw * (p - t)"
  have sq: "in_f32_range (d * d)"
    using assms(2) by (simp add: d_def power2_eq_square)
  have d: "in_f32_range d"
  proof (cases "\<bar>d\<bar> \<le> 1")
    case True
    then show ?thesis by (intro in_f32_range_small) simp
  next
    case False
    then have "\<bar>d\<bar> * 1 \<le> \<bar>d\<bar> * \<bar>d\<bar>"
      by (intro mult_left_mono) simp_all
    then have "\<bar>d\<bar> \<le> \<bar>d * d\<bar>"
      by (simp only: abs_mult mult_1_right)
    with sq show ?thesis by (rule in_f32_range_mono)
  qed
  have half: "in_f32_range (d * d * 0.5)"
    using sq by (rule in_f32_range_mono) (simp add: abs_mult)
  have lin: "in_f32_range (\<bar>d\<bar> - 0.5)"
  proof (cases "\<bar>d\<bar> \<le> 1")
    case True
    then show ?thesis by (intro in_f32_range_small) (simp add: abs_if)
  next
    case False
    then have "\<bar>\<bar>d\<bar> - 0.5\<bar> \<le> \<bar>d\<bar>"
      by (simp add: abs_if)
    with d show ?thesis by (rule in_f32_range_mono)
  qed
  have out: "in_f32_range (huber d * ow)"
    using assms(3) by (simp add: d_def)
  have e0: "sub_f32 (Finite p) (Finite t) = Finite (p - t)"
    using assms(1) by (rule sub_f32_finite)
  have e1: "mul_f32 (Finite iw) (Finite (p - t)) = Finite d"
    unfolding d_def using d [unfolded d_def] by (rule mul_f32_finite)
  have e2: "mul_f32 (Finite d) (Finite d) = Finite (d * d)"
    using sq by (rule mul_f32_finite)
  have e3: "mul_f32 (Finite (d * d)) (Finite 0.5) = Finite (d * d * 0.5)"
    using half by (rule mul_f32_finite)
  have e4: "sub_f32 (abs_f32 (Finite d)) (Finite 0.5) = Finite (\<bar>d\<bar> - 0.5)"
    using lin by (simp add: sub_f32_finite)
  have e5: "less_f32 (abs_f32 (Finite d)) (Finite 1) = (\<bar>d\<bar> < 1)"
    by simp
  have start: "smooth_l1_entry_f32 (Finite p) (Finite t) (Finite iw) (Finite ow)
      = mul_f32 (add_f32
          (mul_f32 (Finite (d * d * 0.5)) (if \<bar>d\<bar> < 1 then Finite 1 else Finite 0))
          (mul_f32 (Finite (\<bar>d\<bar> - 0.5)) (sub_f32 (Finite 1) (if \<bar>d\<bar> < 1 then Finite 1 else Finite 0))))
          (Finite ow)"
    by (simp only: smooth_l1_entry_f32_def Let_def e0 e1 e2 e3 e4 e5)
  show ?thesis
  proof (cases "\<bar>d\<bar> < 1")
    case True
    then have h: "huber d = d * d * 0.5"
      by (simp add: huber_def power2_eq_square)
    have "add_f32 (mul_f32 (Finite (d * d * 0.5)) (Finite 1))
            (mul_f32 (Finite (\<bar>d\<bar> - 0.5)) (sub_f32 (Finite 1) (Finite 1)))
        = Finite (d * d * 0.5)"
      using half by (simp add: sub_f32_def round_f32_in_range in_f32_range_small)
    moreover have "mul_f32 (Finite (d * d * 0.5)) (Finite ow) = Finite (d * d * 0.5 * ow)"
      using out unfolding h by (rule mul_f32_finite)
    ultimately show ?thesis
      using True by (simp only: start if_True h flip: d_def)
  next
    case False
    then have h: "huber d = \<bar>d\<bar> - 0.5"
      by (simp add: huber_def)
    have "add_f32 (mul_f32 (Finite (d * d * 0.5)) (Finite 0))
            (mul_f32 (Finite (\<bar>d\<bar> - 0.5)) (sub_f32 (Finite 1) (Finite 0)))
        = Finite (\<bar>d\<bar> - 0.5)"
      using lin by (simp add: sub_f32_def round_f32_in_range in_f32_range_small)
    moreover have "mul_f32 (Finite (\<bar>d\<bar> - 0.5)) (Finite ow) = Finite ((\<bar>d\<bar> - 0.5) * ow)"
      using out unfolding h by (rule mul_f32_finite)
    ultimately show ?thesis
      using False by (simp only: start if_False h flip: d_def)
  qed
qed







lemma all_less_4: "(\<forall>l<4. P l) = (P 0 \<and> P 1 \<and> P 2 \<and> P (3 :: nat))"
proof -
  have "l < 4 \<longleftrightarrow> l = 0 \<or> l = 1 \<or> l = 2 \<or> l = 3" for l :: nat
    by arith
  then show ?thesis
    by auto
qed





text \<open>
  On an empty batch every tensor is empty: the mean of no cross-entropy is NaN and the
  sum of no entry is 0, on 32-bit values and on reals alike.
\<close>

lemma loss_f32_empty_batch_example:
  "loss_f32 \<lparr>anchors = [], anchor_tf = (\<lambda>(rnd :: unit) gt ancs. Some ([], [], [], [], []))\<rparr>
      () [] [] [] = Some (NaN, Finite 0, [], [])"
  by (simp add: loss_f32_def cls_loss_def reg_loss_f32_def tf_reshape3_def smooth_l1_f32_def
      tf_binop_def bcast_def map3_def tf_reduce_sum_f32_def tf_where_def tf_gather_nd_def
      tf_reshape2_def tf_reshape1_def tf_cast_int32_def sparse_softmax_cross_entropy_with_logits_def
      tf_reduce_mean_def tf_not_equal_scalar_def round_f32_def overflow_f32_def Let_def)

lemma loss_empty_batch_example:
  "loss \<lparr>anchors = [], anchor_tf = (\<lambda>(rnd :: unit) gt ancs. Some ([], [], [], [], []))\<rparr>
      () [] [] [] = Some (NaN, 0, [], [])"
  by (simp add: loss_def cls_loss_def reg_loss_def tf_reshape3_def smooth_l1_def
      tf_binop_def bcast_def map3_def tf_reduce_sum_def tf_where_def tf_gather_nd_def
      tf_reshape2_def tf_reshape1_def tf_cast_int32_def sparse_softmax_cross_entropy_with_logits_def
      tf_reduce_mean_def tf_not_equal_scalar_def Let_def tf_subtract_def tf_multiply_def
      tf_multiply_scalar_def tf_cast_float_def tf_less_scalar_def tf_abs_def tf_subtract_scalar_def
      tf_scalar_subtract_def tf_add_def)

section \<open>Zero inside weight on 32-bit values\<close>

lemma smooth_l1_entry_f32_zero_inside_weight:
  assumes "in_f32_range (p - t)"
  shows "smooth_l1_entry_f32 (Finite p) (Finite t) (Finite 0) (Finite w) = Finite 0"
proof -
  have "in_f32_range ((0 * (p - t))\<^sup>2)" "in_f32_range (huber (0 * (p - t)) * w)"
    by (simp_all add: in_f32_range_small huber_def)
  with assms have "smooth_l1_entry_f32 (Finite p) (Finite t) (Finite 0) (Finite w)
      = Finite (huber (0 * (p - t)) * w)"
    by (rule smooth_l1_entry_f32_in_range)
  then show ?thesis
    by (simp add: huber_def)
qed

text \<open>
  Claim C5, as amended. At an anchor whose inside weight is zero in all 4 dimensions,
  whose predicted box, target and outside weight are finite, and whose residuals do not
  overflow, the four entries of the weighted smoothed-L1 tensor are 0, whatever these
  finite values are and whatever the other anchors hold; the regression loss is 10 times
  the sum of that tensor.
\<close>

theorem zero_inside_weight_contributes_zero_f32:
  assumes "shape3 b a 4 pre_box" "shape3 b a 4 target_box"
    and "shape3 b a 4 iw" "shape3 b a 4 ow"
    and "i < b" "j < a"
    and "iw ! i ! j = [Finite 0, Finite 0, Finite 0, Finite 0]"
    and "\<forall>l<4. \<exists>p t w. pre_box ! i ! j ! l = Finite p \<and> target_box ! i ! j ! l = Finite t
            \<and> ow ! i ! j ! l = Finite w \<and> in_f32_range (p - t)"
  shows "\<exists>s. smooth_l1_f32 pre_box target_box iw ow = Some s
           \<and> s ! i ! j = [Finite 0, Finite 0, Finite 0, Finite 0]
           \<and> reg_loss_f32 b pre_box target_box iw ow
               = Some (mul_f32 (tf_reduce_sum_f32 s) (Finite 10))"
proof -
  let ?e = "\<lambda>i j l. smooth_l1_entry_f32 (pre_box ! i ! j ! l) (target_box ! i ! j ! l)
      (iw ! i ! j ! l) (ow ! i ! j ! l)"
  let ?s = "tab3 b a 4 ?e"
  have s: "smooth_l1_f32 pre_box target_box iw ow = Some ?s"
    using assms(1-4) by (rule smooth_l1_f32_shaped)
  have entry: "?e i j l = Finite 0" if "l < 4" for l
  proof -
    from assms(8) that obtain p t w
      where "pre_box ! i ! j ! l = Finite p" "target_box ! i ! j ! l = Finite t"
        "ow ! i ! j ! l = Finite w" "in_f32_range (p - t)"
      by blast
    moreover have "iw ! i ! j ! l = Finite 0"
      using that assms(7) by (auto simp: all_less_4 [symmetric] less_Suc_eq numeral_eq_Suc)
    ultimately show ?thesis
      by (simp add: smooth_l1_entry_f32_zero_inside_weight)
  qed
  have "?s ! i ! j = map (?e i j) [0..<4]"
    using assms(5,6) by (simp add: tab3_def)
  also have "\<dots> = [Finite 0, Finite 0, Finite 0, Finite 0]"
    using entry by (simp add: upt_small)
  finally have "?s ! i ! j = [Finite 0, Finite 0, Finite 0, Finite 0]" .
  moreover have "reg_loss_f32 b pre_box target_box iw ow
      = Some (mul_f32 (tf_reduce_sum_f32 ?s) (Finite 10))"
    using assms(1) s by (simp add: reg_loss_f32_def tf_reshape3_same_shape)
  ultimately show ?thesis
    using s by blast
qed

theorem zero_inside_weight_contributes_zero_f32_witness:
  "\<exists>s. smooth_l1_f32 (map3 Finite [[[30, 4, 5, 6]]]) (map3 Finite [[[3, 40, 5, 60]]])
          (map3 Finite [[[0, 0, 0, 0]]]) (map3 Finite [[[7, 7, 7, 7]]]) = Some s
      \<and> s ! 0 ! 0 = [Finite 0, Finite 0, Finite 0, Finite 0]
      \<and> reg_loss_f32 1 (map3 Finite [[[30, 4, 5, 6]]]) (map3 Finite [[[3, 40, 5, 60]]])
          (map3 Finite [[[0, 0, 0, 0]]]) (map3 Finite [[[7, 7, 7, 7]]])
          = Some (mul_f32 (tf_reduce_sum_f32 s) (Finite 10))"
proof -
  have sh: "shape3 1 1 4 (map3 Finite [[[x0, x1, x2, x3]]])" for x0 x1 x2 x3 :: real
    by (simp add: shape3_def map3_def)
  have z: "map3 Finite [[[0, 0, 0, 0]]] ! 0 ! 0 = [Finite 0, Finite 0, Finite 0, Finite (0 :: real)]"
    by (simp add: map3_def)
  have e: "\<forall>l<4. \<exists>p t w. map3 Finite [[[30, 4, 5, 6]]] ! 0 ! 0 ! l = Finite p
            \<and> map3 Finite [[[3, 40, 5, 60]]] ! 0 ! 0 ! l = Finite t
            \<and> map3 Finite [[[7, 7, 7, 7]]] ! 0 ! 0 ! l = Finite w \<and> in_f32_range (p - t)"
    by (simp add: all_less_4 map3_def in_f32_range_def overflow_f32_def)
  show ?thesis
    using zero_inside_weight_contributes_zero_f32 [OF sh sh sh sh _ _ z e]
    by simp
qed

text \<open>
  Claim C5 as stated fails where the residual overflows. With the predicted coordinates
  \<^verbatim>\<open>3e38\<close> and the targets \<^verbatim>\<open>-3e38\<close>, both finite 32-bit values, the residual is an
  infinity, its product with the inside weight 0 is NaN, and the four entries of the
  anchor are NaN although its inside weight is zero.
\<close>

theorem zero_inside_weight_overflow_counterexample:
  "smooth_l1_f32 (map3 Finite [[[3 * 10 ^ 38, 3 * 10 ^ 38, 3 * 10 ^ 38, 3 * 10 ^ 38]]])
      (map3 Finite [[[- 3 * 10 ^ 38, - 3 * 10 ^ 38, - 3 * 10 ^ 38, - 3 * 10 ^ 38]]])
      (map3 Finite [[[0, 0, 0, 0]]]) (map3 Finite [[[1, 1, 1, 1]]])
     = Some [[[NotANumber, NotANumber, NotANumber, NotANumber]]]
   \<and> in_f32_range (3 * 10 ^ 38) \<and> in_f32_range (- 3 * 10 ^ 38)"
  by (simp add: smooth_l1_f32_def tf_binop_def bcast_def map3_def sub_f32_def round_f32_def
      overflow_f32_def in_f32_range_def)

section \<open>Layer chaining\<close>

lemma feed_single_obj: "feed self [Obj v] = (Inr (), self\<lparr>terminals := [Obj v]\<rparr>)"
  by (simp add: feed_def)

lemma feed_single_str:
  "feed self [Str s]
     = (case map_of (layers self) s of
          None \<Rightarrow> (Inl (KeyError (''Unknown layer name fed: '' @ s)), self\<lparr>terminals := []\<rparr>)
        | Some fed_layer \<Rightarrow> (Inr (), self\<lparr>terminals := [fed_layer]\<rparr>))"
  by (simp add: feed_def split: option.splits)

lemma layer_name_written_out:
  "layer_name op_name kw_name self
     = (case kw_name of
          Some n \<Rightarrow> n
        | None \<Rightarrow> op_name @ ''_'' @ str_of_nat
            (length (filter (\<lambda>(t, v). take (length op_name) t = op_name) (layers self)) + 1))"
  by (simp add: layer_name_def get_unique_name_def startswith_def split: option.splits)

lemma layer_input_of_cases:
  "layer_input_of self = (case terminals self of [t] \<Rightarrow> Single t | ts \<Rightarrow> Several ts)"
  by (simp add: layer_input_of_def split: list.splits)

lemma layer_decorated_no_input:
  assumes "terminals self = []"
  shows "layer_decorated op_name op kw_name self
     = (Inl (RuntimeError (''No input variables found for layer ''
           @ layer_name op_name kw_name self @ ''.'')), self)"
  using assms by (simp add: layer_decorated_def Let_def)

lemma layer_decorated_op_raises:
  assumes "terminals self \<noteq> []"
    and "op self (layer_input_of self) (layer_name op_name kw_name self) = Inl e"
  shows "layer_decorated op_name op kw_name self = (Inl e, self)"
  using assms by (simp add: layer_decorated_def Let_def)

lemma layer_decorated_returns_obj:
  assumes "terminals self \<noteq> []"
    and "op self (layer_input_of self) (layer_name op_name kw_name self) = Inr (Obj v)"
  shows "layer_decorated op_name op kw_name self
     = (Inr (), self\<lparr>layers := AList.update (layer_name op_name kw_name self) (Obj v) (layers self),
                     terminals := [Obj v]\<rparr>)"
  using assms by (simp add: layer_decorated_def Let_def feed_single_obj)

lemma layer_decorated_returns_str:
  assumes "terminals self \<noteq> []"
    and "op self (layer_input_of self) (layer_name op_name kw_name self) = Inr (Str s)"
  shows "layer_decorated op_name op kw_name self
     = (case ((map_of (layers self))(layer_name op_name kw_name self \<mapsto> Str s)) s of
          None \<Rightarrow> (Inl (KeyError (''Unknown layer name fed: '' @ s)),
             self\<lparr>layers := AList.update (layer_name op_name kw_name self) (Str s) (layers self),
                  terminals := []\<rparr>)
        | Some fed_layer \<Rightarrow> (Inr (),
             self\<lparr>layers := AList.update (layer_name op_name kw_name self) (Str s) (layers self),
                  terminals := [fed_layer]\<rparr>))"
  using assms
  by (simp add: layer_decorated_def Let_def feed_single_str update_conv' split: option.splits)

text \<open>
  Claim C10, as amended. A call of a decorated layer method with no terminal raises
  RuntimeError and leaves the object, so its layer table, as it was. With a terminal, the
  wrapped operation is called on the one terminal, or on the list of them, under the
  layer's name: the supplied one, or else the name of the operation, an underscore and
  one more than the number of layers whose name starts with it. When the operation
  raises, the call raises that error and the object is as it was. When it returns an
  output that is not a string, the call returns, the layer table maps the name to the
  output and is otherwise unchanged, the terminal list is exactly that output, and the
  input of the next layer call is that output. When it returns a string, the table maps
  the name to it, and the terminal list holds the layer that the table has under that
  string, the call raising KeyError with no terminal left when there is none.
\<close>

theorem layer_decorated_call:
  "let name = (case kw_name of
                 Some n \<Rightarrow> n
               | None \<Rightarrow> op_name @ ''_'' @ str_of_nat
                   (length (filter (\<lambda>(t, v). take (length op_name) t = op_name) (layers self)) + 1));
       layer_input = (case terminals self of [t] \<Rightarrow> Single t | ts \<Rightarrow> Several ts);
       (r, self') = layer_decorated op_name op kw_name self
   in (terminals self = [] \<longrightarrow>
         r = Inl (RuntimeError (''No input variables found for layer '' @ name @ ''.''))
         \<and> self' = self)
    \<and> (terminals self \<noteq> [] \<longrightarrow>
         (case op self layer_input name of
            Inl e \<Rightarrow> r = Inl e \<and> self' = self
          | Inr (Obj v) \<Rightarrow>
              r = Inr ()
              \<and> map_of (layers self') = (map_of (layers self))(name \<mapsto> Obj v)
              \<and> terminals self' = [Obj v]
              \<and> layer_input_of self' = Single (Obj v)
              \<and> inputs self' = inputs self \<and> trainable self' = trainable self
          | Inr (Str s) \<Rightarrow>
              map_of (layers self') = (map_of (layers self))(name \<mapsto> Str s)
              \<and> inputs self' = inputs self \<and> trainable self' = trainable self
              \<and> (case ((map_of (layers self))(name \<mapsto> Str s)) s of
                   None \<Rightarrow> r = Inl (KeyError (''Unknown layer name fed: '' @ s))
                            \<and> terminals self' = []
                 | Some fed_layer \<Rightarrow> r = Inr () \<and> terminals self' = [fed_layer])))"
proof -
  define name where "name = layer_name op_name kw_name self"
  define layer_input where "layer_input = layer_input_of self"
  obtain r self' where call: "layer_decorated op_name op kw_name self = (r, self')"
    by (cases "layer_decorated op_name op kw_name self")
  have empty: "r = Inl (RuntimeError (''No input variables found for layer '' @ name @ ''.''))
         \<and> self' = self" if "terminals self = []"
    using layer_decorated_no_input [OF that, of op_name op kw_name] call
    by (simp add: name_def)
  have nonempty: "case op self layer_input name of
            Inl e \<Rightarrow> r = Inl e \<and> self' = self
          | Inr (Obj v) \<Rightarrow>
              r = Inr ()
              \<and> map_of (layers self') = (map_of (layers self))(name \<mapsto> Obj v)
              \<and> terminals self' = [Obj v]
              \<and> layer_input_of self' = Single (Obj v)
              \<and> inputs self' = inputs self \<and> trainable self' = trainable self
          | Inr (Str s) \<Rightarrow>
              map_of (layers self') = (map_of (layers self))(name \<mapsto> Str s)
              \<and> inputs self' = inputs self \<and> trainable self' = trainable self
              \<and> (case ((map_of (layers self))(name \<mapsto> Str s)) s of
                   None \<Rightarrow> r = Inl (KeyError (''Unknown layer name fed: '' @ s))
                            \<and> terminals self' = []
                 | Some fed_layer \<Rightarrow> r = Inr () \<and> terminals self' = [fed_layer])"
    if ne: "terminals self \<noteq> []"
  proof (cases "op self layer_input name")
    case (Inl e)
    with layer_decorated_op_raises [OF ne, of op op_name kw_name e] call show ?thesis
      by (simp add: name_def layer_input_def)
  next
    case (Inr out)
    show ?thesis
    proof (cases out)
      case (Obj v)
      with Inr layer_decorated_returns_obj [OF ne, of op op_name kw_name v] call show ?thesis
        by (auto simp: name_def layer_input_def update_conv' layer_input_of_def)
    next
      case (Str s)
      with Inr layer_decorated_returns_str [OF ne, of op op_name kw_name s] call show ?thesis
        by (auto simp: name_def layer_input_def update_conv' split: option.splits if_splits)
    qed
  qed
  show ?thesis
    using empty nonempty call
    unfolding Let_def layer_name_written_out [symmetric] layer_input_of_cases [symmetric]
      name_def [symmetric] layer_input_def [symmetric]
    by simp
qed


theorem layer_decorated_call_witness:
  "(let (r, self') = layer_decorated ''conv''
        (\<lambda>self inp name. case inp of Single (Obj v) \<Rightarrow> Inr (Obj (Suc v)) | _ \<Rightarrow> Inl (OpError ''one tensor''))
        None \<lparr>inputs = [(''data'', Obj 7)], terminals = [], layers = [(''data'', Obj 7)], trainable = True\<rparr>
    in r = Inl (RuntimeError ''No input variables found for layer conv_1.'')
       \<and> self' = \<lparr>inputs = [(''data'', Obj 7)], terminals = [], layers = [(''data'', Obj 7)], trainable = True\<rparr>)
   \<and> (let (r, self') = layer_decorated ''conv''
        (\<lambda>self inp name. case inp of Single (Obj v) \<Rightarrow> Inr (Obj (Suc v)) | _ \<Rightarrow> Inl (OpError ''one tensor''))
        (Some ''fc6'')
        \<lparr>inputs = [(''data'', Obj 7)], terminals = [Obj 7], layers = [(''data'', Obj 7)], trainable = True\<rparr>
    in r = Inr () \<and> map_of (layers self') = [''data'' \<mapsto> Obj 7, ''fc6'' \<mapsto> Obj 8]
       \<and> terminals self' = [Obj 8] \<and> layer_input_of self' = Single (Obj 8))
   \<and> (let (r, self') = layer_decorated ''conv''
        (\<lambda>self inp name. case inp of Single (Obj v) \<Rightarrow> Inr (Obj (Suc v)) | _ \<Rightarrow> Inl (OpError ''one tensor''))
        None
        \<lparr>inputs = [(''data'', Obj 7)], terminals = [Obj 7],
         layers = [(''data'', Obj 7), (''conv_1'', Obj 7)], trainable = True\<rparr>
    in r = Inr () \<and> map_of (layers self') = [''conv_1'' \<mapsto> Obj 7, ''data'' \<mapsto> Obj 7, ''conv_2'' \<mapsto> Obj 8]
       \<and> terminals self' = [Obj 8] \<and> layer_input_of self' = Single (Obj 8))"
  using layer_decorated_call [where op_name = "''conv''" and kw_name = None
      and op = "\<lambda>self inp name. case inp of Single (Obj v) \<Rightarrow> Inr (Obj (Suc v)) | _ \<Rightarrow> Inl (OpError ''one tensor'')"
      and self = "\<lparr>inputs = [(''data'', Obj 7)], terminals = [], layers = [(''data'', Obj 7)], trainable = True\<rparr>"]
    layer_decorated_call [where op_name = "''conv''" and kw_name = "Some ''fc6''"
      and op = "\<lambda>self inp name. case inp of Single (Obj v) \<Rightarrow> Inr (Obj (Suc v)) | _ \<Rightarrow> Inl (OpError ''one tensor'')"
      and self = "\<lparr>inputs = [(''data'', Obj 7)], terminals = [Obj 7], layers = [(''data'', Obj 7)], trainable = True\<rparr>"]
    layer_decorated_call [where op_name = "''conv''" and kw_name = None
      and op = "\<lambda>self inp name. case inp of Single (Obj v) \<Rightarrow> Inr (Obj (Suc v)) | _ \<Rightarrow> Inl (OpError ''one tensor'')"
      and self = "\<lparr>inputs = [(''data'', Obj 7)], terminals = [Obj 7],
         layers = [(''data'', Obj 7), (''conv_1'', Obj 7)], trainable = True\<rparr>"]
  by (simp add: Let_def split: prod.splits)

text \<open>
  Claim C10 as stated fails when the wrapped operation raises. The layer \<^verbatim>\<open>reshape\<close> with
  rate 3, called with one terminal, raises KeyError: the call raises it, the layer table
  has no entry under the layer's name \<^verbatim>\<open>reshape_1\<close>, and the terminal list is still the
  terminal of before the call, not an output of the layer.
\<close>

theorem layer_decorated_op_raises_counterexample:
  "let self = \<lparr>inputs = [(''data'', Obj (7 :: nat))], terminals = [Obj 7],
                layers = [(''data'', Obj 7)], trainable = True\<rparr>;
       (r, self') = layer_decorated ''reshape'' (reshape (\<lambda>inp n name. Obj 8) 3) None self
   in terminals self \<noteq> []
      \<and> layer_name ''reshape'' None self = ''reshape_1''
      \<and> r = Inl (KeyError ''shape is error'')
      \<and> map_of (layers self') ''reshape_1'' = None
      \<and> terminals self' = [Obj 7]"
  by (simp add: Let_def layer_decorated_def layer_name_def get_unique_name_def startswith_def
      layer_input_of_def reshape_def)

lemma layer_decorated_string_output_example:
  "let self = \<lparr>inputs = [(''data'', Obj (7 :: nat))], terminals = [Obj 7],
                layers = [(''data'', Obj 7)], trainable = True\<rparr>;
       (r, self') = layer_decorated ''conv'' (\<lambda>self inp name. Inr (Str ''data'')) None self
   in r = Inr ()
      \<and> map_of (layers self') = [''conv_1'' \<mapsto> Str ''data'', ''data'' \<mapsto> Obj 7]
      \<and> terminals self' = [Obj 7]"
  by (simp add: Let_def layer_decorated_def layer_name_def get_unique_name_def startswith_def
      layer_input_of_def feed_def)

lemma layer_decorated_keeps_keys_distinct:
  assumes "distinct (map fst (layers self))"
  shows "distinct (map fst (layers (snd (layer_decorated op_name op kw_name self))))"
proof -
  have "distinct (map fst (layers (snd (feed_loop net args))))"
    if "distinct (map fst (layers net))" for net :: "'a Network" and args
    using that by (induction net args rule: feed_loop.induct) (auto split: option.splits)
  then show ?thesis
    using assms
    by (auto simp: layer_decorated_def Let_def feed_def distinct_update split: sum.splits)
qed

end
